theory Spec2Isabelle
  imports Complex_Main
begin

section \<open>Python values\<close>

text \<open>
  A Python \<open>str\<close> is a sequence of Unicode code points, and \<open>len\<close> counts code points,
  so a string is modelled as the list of its code points.  \<open>ascii\<close> turns an ASCII
  literal into such a list.
\<close>

type_synonym pystr = "nat list"

definition ascii :: "string \<Rightarrow> pystr" where
  "ascii s = map of_char s"

subsection \<open>Floats\<close>

text \<open>
  A Python float is an IEEE 754 double: a finite value, an infinity, or NaN.  A finite
  double is given by the rational number it denotes; the sign of a zero is not kept,
  since the subtraction, multiplication, \<open>abs\<close> and comparisons used here give the same
  results for both zeros.  An operation on finite doubles returns the exact result
  rounded to the nearest double, a tie going to the even significand, and an infinity
  when the rounded value reaches \<open>2 ^ 1024\<close>.

  \<open>bits n\<close> is the length of \<open>n\<close> in binary and \<open>expo q\<close>, for positive \<open>q\<close>, the exponent
  \<open>e\<close> with \<open>2 ^ e \<le> q < 2 ^ (e + 1)\<close>.  Doubles with exponent \<open>e\<close> are the multiples of
  \<open>2 ^ (e - 52)\<close>, and below \<open>2 ^ (- 1022)\<close> the multiples of \<open>2 ^ (- 1074)\<close>: this spacing
  is \<open>quantum q\<close>.  \<open>rne\<close> rounds to the nearest integer, ties to even.
\<close>

datatype pyfloat = Finite rat | PosInf | NegInf | NaN

fun bits :: "nat \<Rightarrow> nat" where
  "bits n = (if n = 0 then 0 else Suc (bits (n div 2)))"

declare bits.simps [simp del]

definition expo :: "rat \<Rightarrow> int" where
  "expo q =
     (if 1 \<le> q then int (bits (nat \<lfloor>q\<rfloor>)) - 1
      else - int (bits (nat (\<lceil>1 / q\<rceil> - 1))))"

definition rne :: "rat \<Rightarrow> int" where
  "rne x =
     (let f = \<lfloor>x\<rfloor>; d = x - of_int f
      in if d < 1/2 then f else if 1/2 < d then f + 1 else if even f then f else f + 1)"

definition quantum :: "rat \<Rightarrow> rat" where
  "quantum q = 2 powi (max (expo \<bar>q\<bar>) (- 1022) - 52)"

definition huge :: rat where
  "huge = 2 ^ 1024"

definition rnd :: "rat \<Rightarrow> pyfloat" where
  "rnd q =
     (if q = 0 then Finite 0
      else
        let v = of_int (rne (q / quantum q)) * quantum q
        in if \<bar>v\<bar> < huge then Finite v
           else if 0 < q then PosInf else NegInf)"

fun fneg :: "pyfloat \<Rightarrow> pyfloat" where
  "fneg (Finite a) = Finite (- a)"
| "fneg PosInf = NegInf"
| "fneg NegInf = PosInf"
| "fneg NaN = NaN"

fun fabs :: "pyfloat \<Rightarrow> pyfloat" where
  "fabs (Finite a) = Finite \<bar>a\<bar>"
| "fabs PosInf = PosInf"
| "fabs NegInf = PosInf"
| "fabs NaN = NaN"

fun fadd :: "pyfloat \<Rightarrow> pyfloat \<Rightarrow> pyfloat" where
  "fadd NaN y = NaN"
| "fadd x NaN = NaN"
| "fadd (Finite a) (Finite b) = rnd (a + b)"
| "fadd PosInf NegInf = NaN"
| "fadd NegInf PosInf = NaN"
| "fadd PosInf y = PosInf"
| "fadd x PosInf = PosInf"
| "fadd NegInf y = NegInf"
| "fadd x NegInf = NegInf"

definition fsub :: "pyfloat \<Rightarrow> pyfloat \<Rightarrow> pyfloat" where
  "fsub x y = fadd x (fneg y)"

fun is_pos :: "pyfloat \<Rightarrow> bool" where
  "is_pos (Finite a) = (0 < a)"
| "is_pos PosInf = True"
| "is_pos NegInf = False"
| "is_pos NaN = False"

fun fmul :: "pyfloat \<Rightarrow> pyfloat \<Rightarrow> pyfloat" where
  "fmul NaN y = NaN"
| "fmul x NaN = NaN"
| "fmul (Finite a) (Finite b) = rnd (a * b)"
| "fmul x y =
     (if x = Finite 0 then NaN else if y = Finite 0 then NaN
      else if is_pos x = is_pos y then PosInf else NegInf)"

text \<open>\<open>x < y\<close> and \<open>x == y\<close> on doubles: every comparison with NaN is false.\<close>

fun fl_less :: "pyfloat \<Rightarrow> pyfloat \<Rightarrow> bool" where
  "fl_less NaN y = False"
| "fl_less x NaN = False"
| "fl_less (Finite a) (Finite b) = (a < b)"
| "fl_less x NegInf = False"
| "fl_less PosInf y = False"
| "fl_less x y = True"


subsection \<open>Values\<close>

text \<open>
  The values that travel through the program are the ones \<open>json.loads\<close> produces:
  \<open>None\<close>, booleans, integers of any size, floats (with \<open>NaN\<close> and \<open>Infinity\<close>, which the
  parser accepts), strings, lists and dictionaries.  A dictionary is an association list
  with distinct keys, read with \<open>map_of\<close>.
\<close>

datatype json =
    JNull
  | JBool bool
  | JInt int
  | JFloat pyfloat
  | JStr pystr
  | JList "json list"
  | JObj "(pystr \<times> json) list"

text \<open>Python truthiness, as tested by \<open>if v\<close>, \<open>not v\<close>, \<open>v and w\<close>, \<open>v or w\<close>.\<close>

fun truthy :: "json \<Rightarrow> bool" where
  "truthy JNull = False"
| "truthy (JBool b) = b"
| "truthy (JInt i) = (i \<noteq> 0)"
| "truthy (JFloat x) = (x \<noteq> Finite 0)"
| "truthy (JStr s) = (s \<noteq> [])"
| "truthy (JList xs) = (xs \<noteq> [])"
| "truthy (JObj kvs) = (kvs \<noteq> [])"

fun type_name :: "json \<Rightarrow> pystr" where
  "type_name JNull = ascii ''NoneType''"
| "type_name (JBool b) = ascii ''bool''"
| "type_name (JInt i) = ascii ''int''"
| "type_name (JFloat r) = ascii ''float''"
| "type_name (JStr s) = ascii ''str''"
| "type_name (JList xs) = ascii ''list''"
| "type_name (JObj kvs) = ascii ''dict''"

text \<open>
  Every handler in the program is \<open>except Exception as e\<close> and uses only \<open>str(e)\<close>, so an
  exception is its class together with its message.
\<close>

datatype exn = Exception pystr | AttributeError pystr | TypeError pystr | OverflowError pystr

fun str_exn :: "exn \<Rightarrow> pystr" where
  "str_exn (Exception m) = m"
| "str_exn (AttributeError m) = m"
| "str_exn (TypeError m) = m"
| "str_exn (OverflowError m) = m"

text \<open>
  The error of \<open>v.attr\<close> on a value whose type has no such attribute; \<open>quoted\<close> puts
  a string between apostrophes (code point 39).
\<close>

definition quoted :: "pystr \<Rightarrow> pystr" where
  "quoted s = 39 # s @ [39]"

definition no_attribute :: "json \<Rightarrow> string \<Rightarrow> exn" where
  "no_attribute v attr =
     AttributeError (quoted (type_name v) @ ascii '' object has no attribute ''
                     @ quoted (ascii attr))"

text \<open>\<open>len(v)\<close>: defined on strings, lists and dictionaries, a \<open>TypeError\<close> elsewhere.\<close>

fun py_len :: "json \<Rightarrow> exn + nat" where
  "py_len (JStr s) = Inr (length s)"
| "py_len (JList xs) = Inr (length xs)"
| "py_len (JObj kvs) = Inr (length kvs)"
| "py_len v = Inl (TypeError (ascii ''object of type '' @ quoted (type_name v)
                              @ ascii '' has no len()''))"

subsection \<open>Numbers\<close>

text \<open>
  A Python number is an integer of any size or a float.  \<open>bool\<close> is a subclass of
  \<open>int\<close>: \<open>True\<close> is the integer 1 and \<open>False\<close> the integer 0, in arithmetic and in
  comparisons.  Any other operand of \<open>1 - v\<close> raises \<open>TypeError\<close>.
\<close>

datatype num = NInt int | NFloat pyfloat

fun num_of :: "json \<Rightarrow> num option" where
  "num_of (JInt i) = Some (NInt i)"
| "num_of (JFloat x) = Some (NFloat x)"
| "num_of (JBool b) = Some (NInt (if b then 1 else 0))"
| "num_of v = None"

text \<open>
  Arithmetic on two integers is exact.  When one operand is a float the other is
  converted to a float first: the integer is rounded to the nearest double, and
  \<open>OverflowError\<close> is raised when it is too large for one.
\<close>

definition int_to_float :: "int \<Rightarrow> exn + pyfloat" where
  "int_to_float n =
     (case rnd (of_int n) of
        Finite v \<Rightarrow> Inr (Finite v)
      | _ \<Rightarrow> Inl (OverflowError (ascii ''int too large to convert to float'')))"

fun to_float :: "num \<Rightarrow> exn + pyfloat" where
  "to_float (NInt i) = int_to_float i"
| "to_float (NFloat x) = Inr x"

definition float_op :: "(pyfloat \<Rightarrow> pyfloat \<Rightarrow> pyfloat) \<Rightarrow> num \<Rightarrow> num \<Rightarrow> exn + num" where
  "float_op f a b =
     (case to_float a of
        Inl e \<Rightarrow> Inl e
      | Inr x \<Rightarrow> (case to_float b of Inl e \<Rightarrow> Inl e | Inr y \<Rightarrow> Inr (NFloat (f x y))))"

fun py_sub :: "num \<Rightarrow> num \<Rightarrow> exn + num" where
  "py_sub (NInt i) (NInt j) = Inr (NInt (i - j))"
| "py_sub a b = float_op fsub a b"


fun py_mul :: "num \<Rightarrow> num \<Rightarrow> exn + num" where
  "py_mul (NInt i) (NInt j) = Inr (NInt (i * j))"
| "py_mul a b = float_op fmul a b"

fun py_abs :: "num \<Rightarrow> num" where
  "py_abs (NInt i) = NInt \<bar>i\<bar>"
| "py_abs (NFloat x) = NFloat (fabs x)"

text \<open>
  Comparisons between an integer and a float are exact: the integer is not rounded and
  nothing is raised.
\<close>

fun exact :: "num \<Rightarrow> pyfloat" where
  "exact (NInt i) = Finite (of_int i)"
| "exact (NFloat x) = x"

definition py_gt :: "num \<Rightarrow> num \<Rightarrow> bool" where
  "py_gt a b = fl_less (exact b) (exact a)"


definition bad_operand :: "json \<Rightarrow> exn" where
  "bad_operand v =
     TypeError (ascii ''unsupported operand type(s) for -: '' @ quoted (ascii ''int'')
                @ ascii '' and '' @ quoted (type_name v))"

text \<open>
  \<open>str.isspace\<close> for one code point, and \<open>str.strip()\<close>, which removes such code points
  from both ends.
\<close>

definition py_isspace :: "nat \<Rightarrow> bool" where
  "py_isspace c \<longleftrightarrow>
     (9 \<le> c \<and> c \<le> 13) \<or> (28 \<le> c \<and> c \<le> 32) \<or> c = 133 \<or> c = 160 \<or> c = 5760
     \<or> (8192 \<le> c \<and> c \<le> 8202) \<or> c = 8232 \<or> c = 8233 \<or> c = 8239 \<or> c = 8287
     \<or> c = 12288"

definition strip :: "pystr \<Rightarrow> pystr" where
  "strip s = rev (dropWhile py_isspace (rev (dropWhile py_isspace s)))"

text \<open>\<open>s.rstrip(c)\<close> for a single character \<open>c\<close>.\<close>

definition rstrip_char :: "nat \<Rightarrow> pystr \<Rightarrow> pystr" where
  "rstrip_char c s = rev (dropWhile (\<lambda>x. x = c) (rev s))"

text \<open>\<open>d.get(key, dflt)\<close> on a dictionary \<open>d\<close>.\<close>

definition lookup :: "(pystr \<times> json) list \<Rightarrow> string \<Rightarrow> json \<Rightarrow> json" where
  "lookup kvs key dflt = (case map_of kvs (ascii key) of Some v \<Rightarrow> v | None \<Rightarrow> dflt)"

text \<open>\<open>v.strip()\<close> on a dynamically typed value.\<close>

fun strip_dyn :: "json \<Rightarrow> exn + pystr" where
  "strip_dyn (JStr s) = Inr (strip s)"
| "strip_dyn v = Inl (no_attribute v ''strip'')"

section \<open>The remote inference client (api\_external.py)\<close>

text \<open>
  \<open>HF_API_TOKEN\<close> is read once from the environment; the empty string stands for an
  unset variable.
\<close>

record config =
  HF_API_TOKEN :: pystr

text \<open>
  One \<open>requests.post\<close>: the model whose endpoint \<open>API_URL_BASE/model_id\<close> is addressed,
  the bearer token of the \<open>Authorization\<close> header, and the two fields of the payload.
\<close>

record request =
  req_model :: json
  req_token :: pystr
  req_inputs :: pystr
  req_parameters :: "(pystr \<times> nat) list"

text \<open>
  The remote service is not part of the program.  It is a parameter: for the requests
  sent so far and the request sent now, the outcome of \<open>requests.post\<close>,
  \<open>raise_for_status\<close> and \<open>response.json()\<close> together, which is either the exception one of
  them raises or the parsed response.  The state threaded through the client is the log
  of requests sent.
\<close>

type_synonym network = "request list \<Rightarrow> request \<Rightarrow> exn + json"

definition missing_token :: exn where
  "missing_token = Exception (ascii ''HF_API_TOKEN environment variable not set'')"

definition call_hf_api ::
  "config \<Rightarrow> network \<Rightarrow> json \<Rightarrow> pystr \<Rightarrow> (pystr \<times> nat) list option
   \<Rightarrow> request list \<Rightarrow> (exn + json) \<times> request list" where
  "call_hf_api cfg net model_id inputs parameters sent =
     (if HF_API_TOKEN cfg = [] then (Inl missing_token, sent)
      else
        let payload = \<lparr>req_model = model_id, req_token = HF_API_TOKEN cfg,
                       req_inputs = inputs,
                       req_parameters = (case parameters of None \<Rightarrow> [] | Some p \<Rightarrow> p)\<rparr>
        in (net sent payload, sent @ [payload]))"

text \<open>
  Lines 52--56 of \<open>paraphrase_text\<close> and 78--82 of \<open>rewrite_text\<close> are the same code:
  a non-empty list answers with \<open>result[0].get('generated_text', text)\<close> and an empty error
  string, anything else with the input text and the message.  \<open>result[0].get\<close> raises
  \<open>AttributeError\<close> when the first element is not a dictionary.
\<close>

definition unexpected_format :: pystr where
  "unexpected_format = ascii ''API returned unexpected format''"

fun generated_text :: "pystr \<Rightarrow> json \<Rightarrow> exn + json \<times> pystr" where
  "generated_text text (JList (JObj kvs # rest)) =
     Inr (lookup kvs ''generated_text'' (JStr text), [])"
| "generated_text text (JList (v # rest)) = Inl (no_attribute v ''get'')"
| "generated_text text result = Inr (JStr text, unexpected_format)"

definition default_paraphraser :: json where
  "default_paraphraser = JStr (ascii ''humarin/chatgpt_paraphraser_on_T5_base'')"

text \<open>Lines 40--50: the model, the formatted input and the call.\<close>

definition paraphrase_call ::
  "config \<Rightarrow> network \<Rightarrow> pystr \<Rightarrow> json \<Rightarrow> request list \<Rightarrow> (exn + json) \<times> request list" where
  "paraphrase_call cfg net text model_name sent =
     (let model_name = (if \<not> truthy model_name then default_paraphraser else model_name);
          formatted_input = ascii ''paraphrase: '' @ text
      in call_hf_api cfg net model_name formatted_input
           (Some [(ascii ''max_length'', length text * 2),
                  (ascii ''min_length'', length text div 2)]) sent)"

text \<open>
  \<open>paraphrase_text\<close>: the \<open>except\<close> clause of lines 58--60 turns every exception of the
  \<open>try\<close> block into the input text and \<open>str(e)\<close>.
\<close>

definition paraphrase_text ::
  "config \<Rightarrow> network \<Rightarrow> pystr \<Rightarrow> json \<Rightarrow> request list \<Rightarrow> (json \<times> pystr) \<times> request list" where
  "paraphrase_text cfg net text model_name sent =
     (case paraphrase_call cfg net text model_name sent of
        (result, sent') \<Rightarrow>
          (case (case result of Inl e \<Rightarrow> Inl e | Inr r \<Rightarrow> generated_text text r) of
             Inr out \<Rightarrow> (out, sent')
           | Inl e \<Rightarrow> ((JStr text, str_exn e), sent')))"

definition rewrite_prompt :: "bool \<Rightarrow> pystr \<Rightarrow> pystr" where
  "rewrite_prompt enhanced text =
     (if enhanced then
        ascii ''Significantly rewrite and humanize this text to make it appear completely human-written: '' @ text
      else ascii ''Rewrite this text to make it more human-like and natural: '' @ text)"

text \<open>Lines 66--76: the model, the prompt and the call.\<close>

definition rewrite_call ::
  "config \<Rightarrow> network \<Rightarrow> pystr \<Rightarrow> json \<Rightarrow> request list \<Rightarrow> (exn + json) \<times> request list" where
  "rewrite_call cfg net text enhanced sent =
     (let model = JStr (ascii ''google/flan-t5-base'');
          prompt = rewrite_prompt (truthy enhanced) text
      in call_hf_api cfg net model prompt
           (Some [(ascii ''max_length'', length text * 3),
                  (ascii ''min_length'', length text)]) sent)"

definition rewrite_text ::
  "config \<Rightarrow> network \<Rightarrow> pystr \<Rightarrow> json \<Rightarrow> request list \<Rightarrow> (json \<times> pystr) \<times> request list" where
  "rewrite_text cfg net text enhanced sent =
     (case rewrite_call cfg net text enhanced sent of
        (result, sent') \<Rightarrow>
          (case (case result of Inl e \<Rightarrow> Inl e | Inr r \<Rightarrow> generated_text text r) of
             Inr out \<Rightarrow> (out, sent')
           | Inl e \<Rightarrow> ((JStr text, str_exn e), sent')))"

subsection \<open>Detection\<close>

record detection =
  ensemble_ai_probability :: num
  ensemble_human_probability :: num
  prediction :: pystr
  confidence :: num
  models_used :: "pystr list"
  det_error :: "pystr option"

definition detector_model :: pystr where
  "detector_model = ascii ''roberta-base-openai-detector''"

text \<open>The literal \<open>0.5\<close>.\<close>

definition half :: num where
  "half = NFloat (Finite (1/2))"

text \<open>Line 100, \<open>prediction.get('score', 0.5)\<close>.\<close>

definition score_of :: "(pystr \<times> json) list \<Rightarrow> json" where
  "score_of kvs = lookup kvs ''score'' (JFloat (Finite (1/2)))"

text \<open>
  Lines 98--102: the score of \<open>result[0]\<close>.  A dictionary gives its \<open>score\<close> (0.5 when the
  key is missing) if its \<open>label\<close> is the string \<open>AI\<close>, and \<open>1 - score\<close> otherwise; a value
  that is not a dictionary gives 0.5.  A score that is not a number raises \<open>TypeError\<close>,
  in \<open>1 - score\<close> on line 100 or in \<open>1 - ai_score\<close> on line 106.
\<close>

fun ai_score_of :: "json \<Rightarrow> exn + num" where
  "ai_score_of (JObj kvs) =
     (let score = score_of kvs
      in case num_of score of
           None \<Rightarrow> Inl (bad_operand score)
         | Some x \<Rightarrow>
             if lookup kvs ''label'' JNull = JStr (ascii ''AI'') then Inr x
             else py_sub (NInt 1) x)"
| "ai_score_of v = Inr half"

text \<open>Line 108, \<open>abs(ai_score - 0.5) * 2\<close>.\<close>

definition confidence_of :: "num \<Rightarrow> exn + num" where
  "confidence_of ai_score =
     (case py_sub ai_score half of
        Inl e \<Rightarrow> Inl e
      | Inr diff \<Rightarrow> py_mul (py_abs diff) (NInt 2))"

text \<open>
  Lines 104--110, the dictionary of a scored result.  Its entries are evaluated in order;
  \<open>1 - ai_score\<close> and \<open>ai_score - 0.5\<close> raise \<open>OverflowError\<close> on an integer too large for a
  float.
\<close>

definition scored :: "num \<Rightarrow> exn + detection" where
  "scored ai_score =
     (case py_sub (NInt 1) ai_score of
        Inl e \<Rightarrow> Inl e
      | Inr human \<Rightarrow>
          (case confidence_of ai_score of
             Inl e \<Rightarrow> Inl e
           | Inr c \<Rightarrow>
               Inr \<lparr>ensemble_ai_probability = ai_score,
                    ensemble_human_probability = human,
                    prediction = (if py_gt ai_score half then ascii ''AI-generated''
                                  else ascii ''Human-written''),
                    confidence = c,
                    models_used = [detector_model],
                    det_error = None\<rparr>))"

definition uncertain :: detection where
  "uncertain =
     \<lparr>ensemble_ai_probability = half,
      ensemble_human_probability = half,
      prediction = ascii ''Uncertain'',
      confidence = NFloat (Finite 0),
      models_used = [],
      det_error = None\<rparr>"

definition detection_failed :: "exn \<Rightarrow> detection" where
  "detection_failed e =
     \<lparr>ensemble_ai_probability = half,
      ensemble_human_probability = half,
      prediction = ascii ''Detection failed'',
      confidence = NFloat (Finite 0),
      models_used = [],
      det_error = Some (str_exn e)\<rparr>"

text \<open>
  Lines 96--119 inside the \<open>try\<close>, with the \<open>except\<close> clause of lines 121--131 for what the
  scoring raises.
\<close>

fun detect_result :: "json \<Rightarrow> detection" where
  "detect_result (JList (p # rest)) =
     (case (case ai_score_of p of Inl e \<Rightarrow> Inl e | Inr ai_score \<Rightarrow> scored ai_score) of
        Inr d \<Rightarrow> d
      | Inl e \<Rightarrow> detection_failed e)"
| "detect_result result = uncertain"

text \<open>Lines 92--94: the call to the classifier.\<close>

definition detect_call ::
  "config \<Rightarrow> network \<Rightarrow> pystr \<Rightarrow> request list \<Rightarrow> (exn + json) \<times> request list" where
  "detect_call cfg net text sent = call_hf_api cfg net (JStr detector_model) text None sent"

definition detect_ai_text ::
  "config \<Rightarrow> network \<Rightarrow> pystr \<Rightarrow> request list \<Rightarrow> detection \<times> request list" where
  "detect_ai_text cfg net text sent =
     (case detect_call cfg net text sent of
        (Inr r, sent') \<Rightarrow> (detect_result r, sent')
      | (Inl e, sent') \<Rightarrow> (detection_failed e, sent'))"

definition is_ai_generated ::
  "config \<Rightarrow> network \<Rightarrow> pystr \<Rightarrow> num \<Rightarrow> request list \<Rightarrow> (bool \<times> num) \<times> request list" where
  "is_ai_generated cfg net text threshold sent =
     (case detect_ai_text cfg net text sent of
        (result, sent') \<Rightarrow>
          ((py_gt (ensemble_ai_probability result) threshold, confidence result), sent'))"

section \<open>The text normalizer (api/index.py)\<close>

text \<open>\<open>s.replace(old, new)\<close> for a single character \<open>old\<close>.\<close>

definition replace_char :: "nat \<Rightarrow> pystr \<Rightarrow> pystr \<Rightarrow> pystr" where
  "replace_char old new s = concat (map (\<lambda>c. if c = old then new else [c]) s)"

text \<open>
  \<open>re.sub(r' +([,.])', r'\1', s)\<close>.  The scan goes from left to right.  At a space, the
  greedy \<open>' +'\<close> takes the whole run of spaces; the pattern matches if the character after
  the run is a comma (44) or a period (46), and the match is replaced by that character
  alone, the scan going on behind it.  (Giving back spaces cannot help: the character
  after a shorter run is a space.)  Where there is no match the character is copied and
  the scan moves one position on.
\<close>

function re_sub_spaces :: "pystr \<Rightarrow> pystr" where
  "re_sub_spaces [] = []"
| "re_sub_spaces (c # cs) =
     (if c = 32 then
        (case dropWhile (\<lambda>x. x = 32) cs of
           [] \<Rightarrow> c # re_sub_spaces cs
         | p # rest \<Rightarrow>
             if p = 44 \<or> p = 46 then p # re_sub_spaces rest
             else c # re_sub_spaces cs)
      else c # re_sub_spaces cs)"
  by pat_completeness auto
termination
proof (relation "measure length")
  fix c :: nat and cs :: "nat list" and p :: nat and rest :: "nat list"
  assume "dropWhile (\<lambda>x. x = 32) cs = p # rest"
  then have "length (p # rest) \<le> length cs"
    using length_dropWhile_le [of "\<lambda>x. x = 32" cs] by simp
  then show "(rest, c # cs) \<in> measure length" by simp
qed auto

definition em_dash :: nat where
  "em_dash = 8212"

definition clean_final_text :: "pystr \<Rightarrow> pystr" where
  "clean_final_text text =
     (if text = [] then text
      else let cleaned_text = replace_char em_dash (ascii '', '') text
           in re_sub_spaces cleaned_text)"

text \<open>
  \<open>humanize_text\<close> passes whatever the rewrite step returned.  A falsy value is returned
  as it is (line 35--36); on any other value that is not a string \<open>text.replace\<close> raises.
\<close>

definition clean_final_text_dyn :: "json \<Rightarrow> exn + json" where
  "clean_final_text_dyn v =
     (if \<not> truthy v then Inr v
      else case v of
             JStr s \<Rightarrow> Inr (JStr (clean_final_text s))
           | _ \<Rightarrow> Inl (no_attribute v ''replace''))"

section \<open>The humanization pipeline (api/index.py)\<close>

record stats =
  original_length :: nat
  paraphrasing_used :: bool
  enhanced_rewriting_used :: json
  model_used :: json
  processing_steps :: "pystr list"
  final_length :: "nat option"
  length_change :: "int option"
  st_error :: "pystr option"

text \<open>
  The second component of what \<open>humanize_text\<close> returns: the dictionary
  \<open>{"error": "Required modules not available", "success": False}\<close> of line 67, or the
  statistics of the run.
\<close>

datatype statistics = Unavailable | Statistics stats

text \<open>
  The body of a response: the literal \<open>''\<close> of the preflight answer, \<open>json.dumps\<close> of a
  plain object, or \<open>json.dumps\<close> of
  \<open>{"humanized_text": h, "success": True, "statistics": st}\<close>.
\<close>

datatype payload =
    Raw pystr
  | Dumps json
  | Dumps_humanized json statistics

record response =
  statusCode :: nat
  headers :: "(pystr \<times> pystr) list"
  body :: payload

text \<open>
  The modules \<open>paraphraser\<close>, \<open>rewriter\<close> and \<open>detector\<close> that \<open>index.py\<close> imports are not
  among the sources, so what it takes from them is a parameter: whether the import
  succeeded, and the imported functions, each of which may raise or return, on a state
  \<open>'s\<close> of their own.  \<open>json_loads\<close> is the library's parser.  The routes other than
  \<open>/humanize\<close> only call into these modules once the import has succeeded; they are
  parameters too.
\<close>

record 's modules =
  IMPORTS_AVAILABLE :: bool
  imported_paraphrase_text :: "pystr \<Rightarrow> json \<Rightarrow> 's \<Rightarrow> (exn + json \<times> pystr) \<times> 's"
  imported_rewrite_text :: "pystr \<Rightarrow> json \<Rightarrow> 's \<Rightarrow> (exn + json \<times> pystr) \<times> 's"
  get_current_model :: "'s \<Rightarrow> (exn + json) \<times> 's"
  json_loads :: "pystr \<Rightarrow> exn + json"
  available_route :: "pystr \<Rightarrow> json \<Rightarrow> 's \<Rightarrow> (exn + response) \<times> 's"

text \<open>
  Line 85, \<open>not err and paraphrased and paraphrased.strip()\<close>: the paraphrase is taken
  when the error string is empty, the value is truthy and what is left after stripping
  is not empty.  A truthy value that is not a string raises in \<open>.strip()\<close>.
\<close>

definition accepted :: "pystr \<Rightarrow> json \<Rightarrow> exn + pystr option" where
  "accepted err paraphrased =
     (if err \<noteq> [] then Inr None
      else if \<not> truthy paraphrased then Inr None
      else case paraphrased of
             JStr p \<Rightarrow> Inr (if strip p = [] then None else Some p)
           | _ \<Rightarrow> Inl (no_attribute paraphrased ''strip''))"

definition add_step :: "string \<Rightarrow> stats \<Rightarrow> stats" where
  "add_step name st = st\<lparr>processing_steps := processing_steps st @ [ascii name]\<rparr>"

text \<open>
  The \<open>try\<close> block of \<open>humanize_text\<close> in three parts.  \<open>stats\<close> is a dictionary updated
  in place, so an exception leaves the statistics as they were when it was raised: a part
  returns \<open>Inl (e, st)\<close> for an exception \<open>e\<close> raised with statistics \<open>st\<close>.

  Lines 81--96, the paraphrasing step.
\<close>

definition paraphrase_step ::
  "'s modules \<Rightarrow> json \<Rightarrow> json \<Rightarrow> pystr \<Rightarrow> stats \<Rightarrow> 's \<Rightarrow> (exn \<times> stats + pystr \<times> stats) \<times> 's" where
  "paraphrase_step M use_paraphrasing paraphrase_model current_text st s =
     (if \<not> truthy use_paraphrasing then (Inr (current_text, st), s)
      else
        case imported_paraphrase_text M current_text paraphrase_model s of
          (Inl e, s1) \<Rightarrow> (Inl (e, st), s1)
        | (Inr (paraphrased, err), s1) \<Rightarrow>
            (case accepted err paraphrased of
               Inl e \<Rightarrow> (Inl (e, st), s1)
             | Inr None \<Rightarrow> (Inr (current_text, add_step ''paraphrasing_failed'' st), s1)
             | Inr (Some p) \<Rightarrow>
                 let st1 = st\<lparr>paraphrasing_used := True\<rparr>
                 in case get_current_model M s1 of
                      (Inl e, s2) \<Rightarrow> (Inl (e, st1), s2)
                    | (Inr m, s2) \<Rightarrow>
                        (Inr (if take 2 p = ascii '': '' then drop 2 p else p,
                              add_step ''paraphrasing'' (st1\<lparr>model_used := m\<rparr>)), s2)))"

text \<open>Lines 99--107, the rewriting step.\<close>

definition rewrite_step ::
  "'s modules \<Rightarrow> json \<Rightarrow> pystr \<Rightarrow> stats \<Rightarrow> 's \<Rightarrow> (exn \<times> stats + json \<times> stats) \<times> 's" where
  "rewrite_step M use_enhanced_rewriting current_text st s =
     (case imported_rewrite_text M current_text use_enhanced_rewriting s of
        (Inl e, s1) \<Rightarrow> (Inl (e, st), s1)
      | (Inr (final_text, err), s1) \<Rightarrow>
          if err \<noteq> [] then (Inr (JStr current_text, add_step ''rewriting_failed'' st), s1)
          else (Inr (final_text, add_step ''rewriting'' st), s1))"

text \<open>Lines 109--117, cleaning and the two lengths.\<close>

definition cleaning_step :: "json \<Rightarrow> stats \<Rightarrow> exn \<times> stats + json \<times> stats" where
  "cleaning_step final_text st =
     (case clean_final_text_dyn final_text of
        Inl e \<Rightarrow> Inl (e, st)
      | Inr cleaned \<Rightarrow>
          let st1 = add_step ''text_cleaning'' st
          in case py_len cleaned of
               Inl e \<Rightarrow> Inl (e, st1)
             | Inr n \<Rightarrow>
                 Inr (cleaned,
                      st1\<lparr>final_length := Some n,
                          length_change := Some (int n - int (original_length st1))\<rparr>))"

definition initial_stats :: "pystr \<Rightarrow> json \<Rightarrow> stats" where
  "initial_stats text use_enhanced_rewriting =
     \<lparr>original_length = length text,
      paraphrasing_used = False,
      enhanced_rewriting_used = use_enhanced_rewriting,
      model_used = JNull,
      processing_steps = [],
      final_length = None,
      length_change = None,
      st_error = None\<rparr>"

definition pipeline ::
  "'s modules \<Rightarrow> pystr \<Rightarrow> json \<Rightarrow> json \<Rightarrow> json \<Rightarrow> 's \<Rightarrow> (exn \<times> stats + json \<times> stats) \<times> 's" where
  "pipeline M text use_paraphrasing use_enhanced_rewriting paraphrase_model s =
     (case paraphrase_step M use_paraphrasing paraphrase_model text
             (initial_stats text use_enhanced_rewriting) s of
        (Inl x, s1) \<Rightarrow> (Inl x, s1)
      | (Inr (current_text, st1), s1) \<Rightarrow>
          (case rewrite_step M use_enhanced_rewriting current_text st1 s1 of
             (Inl x, s2) \<Rightarrow> (Inl x, s2)
           | (Inr (final_text, st2), s2) \<Rightarrow> (cleaning_step final_text st2, s2)))"

text \<open>
  \<open>humanize_text\<close>: the guard of line 66, the \<open>try\<close> block, and the handler of lines
  119--125, which returns the argument \<open>text\<close> and the statistics with \<open>error\<close> set and
  \<open>"error"\<close> appended to the steps.
\<close>

definition humanize_text ::
  "'s modules \<Rightarrow> pystr \<Rightarrow> json \<Rightarrow> json \<Rightarrow> json \<Rightarrow> 's \<Rightarrow> (json \<times> statistics) \<times> 's" where
  "humanize_text M text use_paraphrasing use_enhanced_rewriting paraphrase_model s =
     (if \<not> IMPORTS_AVAILABLE M then ((JStr text, Unavailable), s)
      else
        case pipeline M text use_paraphrasing use_enhanced_rewriting paraphrase_model s of
          (Inr (final_text, st), s') \<Rightarrow> ((final_text, Statistics st), s')
        | (Inl (e, st), s') \<Rightarrow>
            ((JStr text,
              Statistics (st\<lparr>st_error := Some (str_exn e),
                             processing_steps := processing_steps st @ [ascii ''error'']\<rparr>)),
             s'))"

section \<open>The request handler (api/index.py)\<close>

text \<open>
  The event is a dictionary; the handler reads three keys.  \<open>None\<close> stands for a missing
  \<open>httpMethod\<close> or \<open>path\<close>, and \<open>JNull\<close> for a missing body.
\<close>

record event =
  ev_httpMethod :: "pystr option"
  ev_path :: "pystr option"
  ev_body :: json

definition cors_headers :: "(pystr \<times> pystr) list" where
  "cors_headers =
     [(ascii ''Access-Control-Allow-Origin'', ascii ''*''),
      (ascii ''Access-Control-Allow-Headers'', ascii ''Content-Type''),
      (ascii ''Access-Control-Allow-Methods'', ascii ''GET, POST, OPTIONS''),
      (ascii ''Content-Type'', ascii ''application/json'')]"

definition reply :: "nat \<Rightarrow> payload \<Rightarrow> response" where
  "reply code b = \<lparr>statusCode = code, headers = cors_headers, body = b\<rparr>"

definition error_reply :: "nat \<Rightarrow> string \<Rightarrow> response" where
  "error_reply code msg = reply code (Dumps (JObj [(ascii ''error'', JStr (ascii msg))]))"

definition unavailable_reply :: response where
  "unavailable_reply =
     reply 500 (Dumps (JObj [(ascii ''error'', JStr (ascii ''Required modules not available'')),
                             (ascii ''success'', JBool False)]))"

text \<open>
  Lines 155--164.  A falsy body, and a string that \<open>json.loads\<close> rejects (the bare
  \<open>except\<close>), both give the empty dictionary; a body that is not a string is taken as it
  is.
\<close>

definition parse_body :: "'s modules \<Rightarrow> json \<Rightarrow> json" where
  "parse_body M b =
     (if truthy b then
        (case b of
           JStr str \<Rightarrow> (case json_loads M str of Inr v \<Rightarrow> v | Inl e \<Rightarrow> JObj [])
         | _ \<Rightarrow> b)
      else JObj [])"

text \<open>
  \<open>key in v\<close>: a key of a dictionary, an element of a list, a substring of a string;
  \<open>TypeError\<close> on any other value.  \<open>v.get(key, dflt)\<close> exists on dictionaries only.
\<close>

fun is_substring :: "pystr \<Rightarrow> pystr \<Rightarrow> bool" where
  "is_substring key [] = (key = [])"
| "is_substring key (c # cs) = (take (length key) (c # cs) = key \<or> is_substring key cs)"

fun py_in :: "pystr \<Rightarrow> json \<Rightarrow> exn + bool" where
  "py_in key (JObj kvs) = Inr (key \<in> set (map fst kvs))"
| "py_in key (JList xs) = Inr (JStr key \<in> set xs)"
| "py_in key (JStr str) = Inr (is_substring key str)"
| "py_in key v = Inl (TypeError (ascii ''argument of type '' @ quoted (type_name v)
                                 @ ascii '' is not iterable''))"

fun py_get :: "json \<Rightarrow> string \<Rightarrow> json \<Rightarrow> exn + json" where
  "py_get (JObj kvs) key dflt =
     Inr (lookup kvs key dflt)"
| "py_get v key dflt = Inl (no_attribute v ''get'')"

text \<open>
  Lines 310--311, \<open>if not humanized_text or not humanized_text.strip()\<close>: an empty or
  blank result is replaced by the request's text.
\<close>

definition or_original :: "json \<Rightarrow> pystr \<Rightarrow> exn + json" where
  "or_original humanized_text text =
     (if \<not> truthy humanized_text then Inr (JStr text)
      else case strip_dyn humanized_text of
             Inl e \<Rightarrow> Inl e
           | Inr t \<Rightarrow> Inr (if t = [] then JStr text else humanized_text))"

text \<open>
  Lines 257--321, the branch for \<open>POST /humanize\<close>.  \<open>Inl e\<close> is an exception that leaves
  the branch, to be caught on line 483.
\<close>

definition humanize_route :: "'s modules \<Rightarrow> json \<Rightarrow> 's \<Rightarrow> (exn + response) \<times> 's" where
  "humanize_route M b s =
     (if \<not> IMPORTS_AVAILABLE M then (Inr unavailable_reply, s)
      else
        case py_in (ascii ''text'') b of
          Inl e \<Rightarrow> (Inl e, s)
        | Inr False \<Rightarrow> (Inr (error_reply 400 ''Text field is required''), s)
        | Inr True \<Rightarrow>
            (case py_get b ''text'' (JStr []) of
               Inl e \<Rightarrow> (Inl e, s)
             | Inr v \<Rightarrow>
                 (case strip_dyn v of
                    Inl e \<Rightarrow> (Inl e, s)
                  | Inr text \<Rightarrow>
                      if text = [] then (Inr (error_reply 400 ''Text cannot be empty''), s)
                      else if length text < 10 then
                        (Inr (error_reply 400 ''Text must be at least 10 characters long''), s)
                      else if length text > 50000 then
                        (Inr (error_reply 400 ''Text must be less than 50000 characters''), s)
                      else
                        (case (py_get b ''paraphrasing'' (JBool True),
                               py_get b ''enhanced'' (JBool True),
                               py_get b ''model'' JNull) of
                           (Inr use_paraphrasing, Inr use_enhanced, Inr paraphrase_model) \<Rightarrow>
                             (case humanize_text M text use_paraphrasing use_enhanced
                                     paraphrase_model s of
                                ((humanized_text, stats), s1) \<Rightarrow>
                                  (case or_original humanized_text text of
                                     Inl e \<Rightarrow> (Inl e, s1)
                                   | Inr h \<Rightarrow> (Inr (reply 200 (Dumps_humanized h stats)), s1)))
                         | _ \<Rightarrow> (Inl (no_attribute b ''get''), s)))))"

text \<open>
  Lines 171--481, the chain of routes.  For the five routes other than \<open>/humanize\<close> the
  answer without the imported modules is the one in the source; with them it is the
  parameter \<open>available_route\<close>.
\<close>

definition route :: "'s modules \<Rightarrow> pystr \<Rightarrow> pystr \<Rightarrow> json \<Rightarrow> 's \<Rightarrow> (exn + response) \<times> 's" where
  "route M path method b s =
     (if path = ascii ''/'' \<and> method = ascii ''GET'' then
        (if \<not> IMPORTS_AVAILABLE M then
           (Inr (reply 500 (Dumps (JObj
              [(ascii ''status'', JStr (ascii ''error'')),
               (ascii ''message'', JStr (ascii ''Required modules not available'')),
               (ascii ''features'', JObj
                  [(ascii ''paraphrasing'', JBool False),
                   (ascii ''current_model'', JNull),
                   (ascii ''available_models'', JList []),
                   (ascii ''local_refinement'', JBool False),
                   (ascii ''synonym_support'', JBool False)])]))), s)
         else available_route M path b s)
      else if path = ascii ''/health'' \<and> method = ascii ''GET'' then
        (if \<not> IMPORTS_AVAILABLE M then
           (Inr (reply 500 (Dumps (JObj
              [(ascii ''status'', JStr (ascii ''error'')),
               (ascii ''message'', JStr (ascii ''Required modules not available''))]))), s)
         else available_route M path b s)
      else if path = ascii ''/models'' \<and> method = ascii ''GET'' then
        (if \<not> IMPORTS_AVAILABLE M then
           (Inr (error_reply 500 ''Required modules not available''), s)
         else available_route M path b s)
      else if path = ascii ''/humanize'' \<and> method = ascii ''POST'' then
        humanize_route M b s
      else if path = ascii ''/detect'' \<and> method = ascii ''POST'' then
        (if \<not> IMPORTS_AVAILABLE M then (Inr unavailable_reply, s)
         else available_route M path b s)
      else if path = ascii ''/humanize_and_check'' \<and> method = ascii ''POST'' then
        (if \<not> IMPORTS_AVAILABLE M then (Inr unavailable_reply, s)
         else available_route M path b s)
      else (Inr (error_reply 404 ''Endpoint not found''), s))"

definition internal_error_reply :: response where
  "internal_error_reply =
     reply 500 (Dumps (JObj [(ascii ''error'', JStr (ascii ''Internal server error'')),
                             (ascii ''success'', JBool False)]))"

definition handler :: "'s modules \<Rightarrow> event \<Rightarrow> 's \<Rightarrow> response \<times> 's" where
  "handler M ev s =
     (if ev_httpMethod ev = Some (ascii ''OPTIONS'') then (reply 200 (Raw []), s)
      else
        let b = parse_body M (ev_body ev);
            path = rstrip_char 47 (case ev_path ev of Some p \<Rightarrow> p | None \<Rightarrow> []);
            method = (case ev_httpMethod ev of Some m \<Rightarrow> m | None \<Rightarrow> ascii ''GET'')
        in case route M path method b s of
             (Inr r, s') \<Rightarrow> (r, s')
           | (Inl e, s') \<Rightarrow> (internal_error_reply, s'))"

text \<open>
  The two steps of \<open>api_external.py\<close> in the place of the imported ones.  Both catch every
  exception, so they always return.
\<close>

definition with_api_external ::
  "config \<Rightarrow> network \<Rightarrow> (request list) modules \<Rightarrow> (request list) modules" where
  "with_api_external cfg net M =
     M\<lparr>imported_paraphrase_text :=
         (\<lambda>text model_name sent.
            case paraphrase_text cfg net text model_name sent of (r, sent') \<Rightarrow> (Inr r, sent')),
       imported_rewrite_text :=
         (\<lambda>text enhanced sent.
            case rewrite_text cfg net text enhanced sent of (r, sent') \<Rightarrow> (Inr r, sent'))\<rparr>"

section \<open>Terms of the properties\<close>

text \<open>
  The tests of lines 52, 78 and 96, \<open>isinstance(result, list) and len(result) > 0\<close>, and
  of line 99, \<open>isinstance(prediction, dict)\<close>.
\<close>

fun nonempty_list :: "json \<Rightarrow> bool" where
  "nonempty_list (JList (x # xs)) = True"
| "nonempty_list v = False"

fun is_dict :: "json \<Rightarrow> bool" where
  "is_dict (JObj kvs) = True"
| "is_dict v = False"

text \<open>The neutral result of lines 113--119 and 124--131, whichever its label.\<close>

definition neutral :: "detection \<Rightarrow> bool" where
  "neutral d \<longleftrightarrow>
     ensemble_ai_probability d = half \<and> ensemble_human_probability d = half
     \<and> (prediction d = ascii ''Detection failed'' \<or> prediction d = ascii ''Uncertain'')
     \<and> confidence d = NFloat (Finite 0) \<and> models_used d = []"



text \<open>
  A request that reaches the pipeline: \<open>POST /humanize\<close> with a body that parses to the
  dictionary \<open>kvs\<close>, whose \<open>text\<close> is the string \<open>t\<close>, of 10 to 50000 characters once
  stripped (the validation of lines 268--295).
\<close>

definition humanize_request :: "'s modules \<Rightarrow> event \<Rightarrow> (pystr \<times> json) list \<Rightarrow> pystr \<Rightarrow> bool" where
  "humanize_request M ev kvs t \<longleftrightarrow>
     ev_httpMethod ev = Some (ascii ''POST'')
     \<and> rstrip_char 47 (case ev_path ev of Some p \<Rightarrow> p | None \<Rightarrow> []) = ascii ''/humanize''
     \<and> parse_body M (ev_body ev) = JObj kvs
     \<and> map_of kvs (ascii ''text'') = Some (JStr t)
     \<and> 10 \<le> length (strip t) \<and> length (strip t) \<le> 50000"

text \<open>
  The statistics of a run that reached line 117: those of \<open>st\<close> with the given steps and
  the two lengths for the final text.
\<close>

definition finished :: "stats \<Rightarrow> string list \<Rightarrow> pystr \<Rightarrow> stats" where
  "finished st names final =
     st\<lparr>processing_steps := map ascii names,
        final_length := Some (length final),
        length_change := Some (int (length final) - int (original_length st))\<rparr>"

text \<open>
  A body that is absent, or a string that \<open>json.loads\<close> rejects.
\<close>

definition no_json_body :: "'s modules \<Rightarrow> json \<Rightarrow> bool" where
  "no_json_body M b =
     (case b of
        JNull \<Rightarrow> True
      | JStr str \<Rightarrow> (case json_loads M str of Inl e \<Rightarrow> True | Inr v \<Rightarrow> False)
      | _ \<Rightarrow> False)"

section \<open>Example inputs\<close>

text \<open>
  A service that answers every request with the same response, and one on which every
  request fails with the same message; a configuration with a token and one without.
\<close>

definition answering :: "json \<Rightarrow> network" where
  "answering r sent req = Inr r"

definition failing :: "pystr \<Rightarrow> network" where
  "failing msg sent req = Inl (Exception msg)"

definition demo_config :: config where
  "demo_config = \<lparr>HF_API_TOKEN = ascii ''hf_demo''\<rparr>"

definition no_token :: config where
  "no_token = \<lparr>HF_API_TOKEN = []\<rparr>"






definition hello :: pystr where
  "hello = ascii ''Hello, world''"

definition server_error :: pystr where
  "server_error = ascii ''503 Server Error: Service Unavailable''"

text \<open>
  A service that answers the first request and fails afterwards, and one that fails on
  the first request and answers afterwards.
\<close>

definition answering_once :: "json \<Rightarrow> pystr \<Rightarrow> network" where
  "answering_once r msg sent req = (if sent = [] then Inr r else Inl (Exception msg))"

definition failing_once :: "pystr \<Rightarrow> json \<Rightarrow> network" where
  "failing_once msg r sent req = (if sent = [] then Inl (Exception msg) else Inr r)"

definition generated :: "json \<Rightarrow> json" where
  "generated v = JList [JObj [(ascii ''generated_text'', v)]]"

text \<open>
  Imported modules for the examples: the import has succeeded, the current model is
  known, the parser accepts the empty object only, and the routes that are not modelled
  answer with an exception.  The two steps are those of \<open>api_external.py\<close>.
\<close>

definition demo_loads :: "pystr \<Rightarrow> exn + json" where
  "demo_loads str =
     (if str = ascii ''{}'' then Inr (JObj [])
      else Inl (Exception (ascii ''Expecting value: line 1 column 1 (char 0)'')))"

definition demo_modules :: "bool \<Rightarrow> config \<Rightarrow> network \<Rightarrow> (request list) modules" where
  "demo_modules available cfg net =
     with_api_external cfg net
       \<lparr>IMPORTS_AVAILABLE = available,
        imported_paraphrase_text = (\<lambda>text model_name sent. (Inr (JStr text, []), sent)),
        imported_rewrite_text = (\<lambda>text enhanced sent. (Inr (JStr text, []), sent)),
        get_current_model = (\<lambda>sent. (Inr default_paraphraser, sent)),
        json_loads = demo_loads,
        available_route = (\<lambda>path b sent. (Inl (Exception (ascii ''not modelled'')), sent))\<rparr>"

definition demo_text :: pystr where
  "demo_text = ascii ''The results were significant.''"

definition post_humanize :: "json \<Rightarrow> event" where
  "post_humanize b =
     \<lparr>ev_httpMethod = Some (ascii ''POST''), ev_path = Some (ascii ''/humanize''), ev_body = b\<rparr>"

definition demo_body :: json where
  "demo_body = JObj [(ascii ''text'', JStr demo_text)]"



definition not_json :: pystr where
  "not_json = ascii ''{text: hello''"

section \<open>Auxiliary definitions for the proofs\<close>

text \<open>
  Whether the scan of \<open>re_sub_spaces\<close>, standing before \<open>cs\<close>, sees a comma or a period
  behind the spaces that \<open>cs\<close> starts with.
\<close>

definition punct_next :: "pystr \<Rightarrow> bool" where
  "punct_next cs = (case dropWhile (\<lambda>x. x = 32) cs of [] \<Rightarrow> False | p # r \<Rightarrow> p = 44 \<or> p = 46)"


section \<open>The text normalizer: properties\<close>

lemma punct_next_Cons: "punct_next (c # cs) = (if c = 32 then punct_next cs else c = 44 \<or> c = 46)"
  by (simp add: punct_next_def)

lemma re_sub_skip: "c = 32 \<Longrightarrow> \<not> punct_next cs \<Longrightarrow> re_sub_spaces (c # cs) = c # re_sub_spaces cs"
  by (simp add: punct_next_def del: dropWhile_eq_Nil_conv split: list.splits)

lemma re_sub_match:
  "c = 32 \<Longrightarrow> dropWhile (\<lambda>x. x = 32) cs = p # rest \<Longrightarrow> p = 44 \<or> p = 46 \<Longrightarrow>
   re_sub_spaces (c # cs) = p # re_sub_spaces rest"
  by simp

lemma re_sub_keep: "c \<noteq> 32 \<Longrightarrow> re_sub_spaces (c # cs) = c # re_sub_spaces cs"
  by simp

lemma punct_next_re_sub: "punct_next (re_sub_spaces cs) = punct_next cs"
proof (induction cs rule: re_sub_spaces.induct)
  case 1 show ?case by simp
next
  case (2 c cs)
  show ?case
  proof (cases "c = 32")
    case False then show ?thesis by (simp add: punct_next_Cons)
  next
    case sp: True
    show ?thesis
    proof (cases "punct_next cs")
      case False
      with sp 2 show ?thesis 
        by (simp add: re_sub_skip punct_next_Cons punct_next_def del: re_sub_spaces.simps dropWhile_eq_Nil_conv split: list.splits)
    next
      case True
      then obtain p rest where d: "dropWhile (\<lambda>x. x = 32) cs = p # rest" and p: "p = 44 \<or> p = 46"
        by (auto simp: punct_next_def split: list.splits)
      from sp d p have "re_sub_spaces (c # cs) = p # re_sub_spaces rest" by (rule re_sub_match)
      with p sp True show ?thesis by (auto simp: punct_next_Cons)
    qed
  qed
qed

lemma re_sub_idem: "re_sub_spaces (re_sub_spaces s) = re_sub_spaces s"
proof (induction s rule: re_sub_spaces.induct)
  case 1 show ?case by simp
next
  case (2 c cs)
  show ?case
  proof (cases "c = 32")
    case False with 2 show ?thesis by simp
  next
    case sp: True
    show ?thesis
    proof (cases "punct_next cs")
      case False
      then have n: "\<not> punct_next (re_sub_spaces cs)" by (simp add: punct_next_re_sub)
      have ih: "re_sub_spaces (re_sub_spaces cs) = re_sub_spaces cs"
        using 2 sp False by (auto simp: punct_next_def simp del: dropWhile_eq_Nil_conv split: list.splits)
      from sp False n ih show ?thesis by (simp add: re_sub_skip del: re_sub_spaces.simps)
    next
      case True
      then obtain p rest where d: "dropWhile (\<lambda>x. x = 32) cs = p # rest" and p: "p = 44 \<or> p = 46"
        by (auto simp: punct_next_def split: list.splits)
      from sp d p have e: "re_sub_spaces (c # cs) = p # re_sub_spaces rest" by (rule re_sub_match)
      have "re_sub_spaces (re_sub_spaces rest) = re_sub_spaces rest"
        using 2(2) [OF sp d p] .
      with e p show ?thesis by (auto simp del: re_sub_spaces.simps simp: re_sub_keep)
    qed
  qed
qed

lemma set_re_sub: "set (re_sub_spaces s) \<subseteq> set s"
proof (induction s rule: re_sub_spaces.induct)
  case 1 show ?case by simp
next
  case (2 c cs)
  show ?case
  proof (cases "c = 32 \<and> punct_next cs")
    case False
    then have "re_sub_spaces (c # cs) = c # re_sub_spaces cs"
      by (cases "c = 32") (simp_all add: re_sub_skip re_sub_keep del: re_sub_spaces.simps)
    moreover have "set (re_sub_spaces cs) \<subseteq> set cs"
      using 2 False by (auto simp: punct_next_def simp del: dropWhile_eq_Nil_conv split: list.splits)
    ultimately show ?thesis by auto
  next
    case True
    then obtain p rest where d: "dropWhile (\<lambda>x. x = 32) cs = p # rest" and p: "p = 44 \<or> p = 46"
      by (auto simp: punct_next_def split: list.splits)
    from True d p have e: "re_sub_spaces (c # cs) = p # re_sub_spaces rest" by (simp add: re_sub_match)
    have "set (p # rest) \<subseteq> set cs" using d set_dropWhileD by (metis subsetI)
    moreover have "set (re_sub_spaces rest) \<subseteq> set rest" using 2(2) True d p by blast
    ultimately show ?thesis using e by auto
  qed
qed

lemma replace_char_absent: "old \<notin> set s \<Longrightarrow> replace_char old new s = s"
  by (induction s) (auto simp: replace_char_def)

lemma set_replace_char: "old \<notin> set new \<Longrightarrow> old \<notin> set (replace_char old new s)"
  by (induction s) (auto simp: replace_char_def)

lemma em_dash_gone: "em_dash \<notin> set (re_sub_spaces (replace_char em_dash (ascii '', '') t))"
proof -
  have "em_dash \<notin> set (replace_char em_dash (ascii '', '') t)"
    by (rule set_replace_char) (simp add: ascii_def em_dash_def)
  with set_re_sub show ?thesis by blast
qed

text \<open>
  Claim C8.  The normalizer is idempotent: cleaning a cleaned text changes nothing.  For
  every text it is the replacement of each em-dash by a comma and a space, followed by
  the removal of the spaces that stand before a comma or a period.
\<close>

theorem clean_final_text_idempotent:
  "clean_final_text (clean_final_text t) = clean_final_text t
   \<and> clean_final_text t = re_sub_spaces (replace_char em_dash (ascii '', '') t)"
proof
  show "clean_final_text (clean_final_text t) = clean_final_text t"
    by (simp add: clean_final_text_def Let_def replace_char_absent [OF em_dash_gone] re_sub_idem)
  show "clean_final_text t = re_sub_spaces (replace_char em_dash (ascii '', '') t)"
    by (simp add: clean_final_text_def replace_char_def)
qed

text \<open>
  Claim C9, as stated: the text "em-dash, well, that's, two spaces, odd, space, period"
  is normalized to ", well, that's odd." with one space before "odd".  It is not: only
  spaces before a comma or a period are removed.
\<close>

theorem clean_final_text_literal_counterexample:
  "clean_final_text (em_dash # ascii ''well, that's  odd .'') \<noteq> ascii '', well, that's odd.''"
  by (simp add: clean_final_text_def ascii_def replace_char_def em_dash_def)

text \<open>
  Claim C9, amended: the same text is normalized to ", well, that's  odd.", where the two
  spaces before "odd" are kept, the em-dash has become a comma and a space, and the space
  before the period is gone.
\<close>

theorem clean_final_text_literal:
  "clean_final_text (em_dash # ascii ''well, that's  odd .'') = ascii '', well, that's  odd.''"
  by (simp add: clean_final_text_def ascii_def replace_char_def em_dash_def)

section \<open>Stripping\<close>

lemma dropWhile_hd: "dropWhile P xs = y # ys \<Longrightarrow> \<not> P y"
  by (simp add: dropWhile_eq_Cons_conv)

lemma dropWhile_fix: "xs = [] \<or> \<not> P (hd xs) \<Longrightarrow> dropWhile P xs = xs"
  by (cases xs) auto

lemma rstrip_fix: "xs = [] \<or> \<not> P (last xs) \<Longrightarrow> rev (dropWhile P (rev xs)) = xs"
  by (cases xs rule: rev_cases) auto

lemma rstrip_last: "rev (dropWhile P (rev xs)) = ys \<Longrightarrow> ys = [] \<or> \<not> P (last ys)"
  by (induction xs rule: rev_induct) (auto split: if_splits)

lemma rstrip_hd: "xs = [] \<or> \<not> P (hd xs) \<Longrightarrow> rev (dropWhile P (rev xs)) = ys \<Longrightarrow> ys = [] \<or> \<not> P (hd ys)"
  by (induction xs arbitrary: ys rule: rev_induct) (auto split: if_splits simp: hd_append)

lemma strip_ends: "strip t = [] \<or> (\<not> py_isspace (hd (strip t)) \<and> \<not> py_isspace (last (strip t)))"
proof -
  let ?w = "dropWhile py_isspace t"
  have w: "?w = [] \<or> \<not> py_isspace (hd ?w)"
    by (cases ?w) (auto dest: dropWhile_hd)
  have h: "strip t = [] \<or> \<not> py_isspace (hd (strip t))"
    using w by (rule rstrip_hd) (simp add: strip_def)
  have l: "strip t = [] \<or> \<not> py_isspace (last (strip t))"
    by (rule rstrip_last [of py_isspace ?w]) (simp add: strip_def)
  from h l show ?thesis by auto
qed

lemma strip_idem: "strip (strip t) = strip t"
proof -
  from strip_ends [of t] have a: "dropWhile py_isspace (strip t) = strip t"
    by (intro dropWhile_fix) auto
  from strip_ends [of t] have b: "rev (dropWhile py_isspace (rev (strip t))) = strip t"
    by (intro rstrip_fix) auto
  show ?thesis using a b by (simp add: strip_def [of "strip t"])
qed

section \<open>Rounding: properties\<close>

lemma bits_pos: "0 < n \<Longrightarrow> 0 < bits n"
  by (subst bits.simps) simp

lemma bits_bounds: "0 < n \<Longrightarrow> 2 ^ (bits n - 1) \<le> n \<and> n < 2 ^ bits n"
proof (induction n rule: bits.induct)
  case (1 n)
  show ?case
  proof (cases "n div 2 = 0")
    case True
    with 1(2) have "n = 1" by (simp add: div_eq_0_iff) 
    moreover have "bits (Suc 0) = Suc 0" by (simp add: bits.simps [of "Suc 0"] bits.simps [of 0])
    ultimately show ?thesis by simp
  next
    case False
    then have h: "2 ^ (bits (n div 2) - 1) \<le> n div 2 \<and> n div 2 < 2 ^ bits (n div 2)"
      using 1 by simp
    from False have p: "0 < bits (n div 2)" by (simp add: bits_pos)
    have b: "bits n = Suc (bits (n div 2))" using 1(2) by (subst bits.simps) simp
    from p have e: "(2::nat) ^ bits (n div 2) = 2 * 2 ^ (bits (n div 2) - 1)"
      by (cases "bits (n div 2)") simp_all
    from h e show ?thesis unfolding b by (simp) linarith
  qed
qed

lemma ceil_pred:
  assumes "1 < (r::rat)"
  shows "of_nat (nat (\<lceil>r\<rceil> - 1)) < r \<and> r \<le> of_nat (nat (\<lceil>r\<rceil> - 1)) + 1 \<and> 0 < nat (\<lceil>r\<rceil> - 1)"
proof -
  from assms have c: "2 \<le> \<lceil>r\<rceil>" by linarith
  then have "(of_nat (nat (\<lceil>r\<rceil> - 1)) :: rat) = of_int (\<lceil>r\<rceil> - 1)"
    by (subst of_nat_nat) auto
  moreover have "of_int (\<lceil>r\<rceil> - 1) < r" by linarith
  moreover have "r \<le> of_int (\<lceil>r\<rceil> - 1) + 1" by simp
  moreover from c have "0 < nat (\<lceil>r\<rceil> - 1)" by simp
  ultimately show ?thesis by simp
qed

lemma expo_bounds:
  assumes "0 < q"
  shows "2 powi expo q \<le> q \<and> q < 2 powi (expo q + 1)"
proof (cases "1 \<le> q")
  case True
  let ?n = "nat \<lfloor>q\<rfloor>"
  from True have n: "0 < ?n" by simp
  from bits_bounds [OF n] have lo: "2 ^ (bits ?n - 1) \<le> ?n" and hi: "?n < 2 ^ bits ?n" by auto
  have e: "expo q = int (bits ?n) - 1" using True by (simp add: expo_def)
  from bits_pos [OF n] have e': "expo q = int (bits ?n - 1)" unfolding e by simp
  have "(of_nat (2 ^ (bits ?n - 1)) :: rat) \<le> of_nat ?n" using lo by (simp only: of_nat_le_iff)
  also have "\<dots> \<le> q" using True by (simp add: of_nat_nat)
  finally have 1: "2 powi expo q \<le> q" unfolding e' by simp
  have "q < of_int (\<lfloor>q\<rfloor> + 1)" by linarith
  also have "\<dots> = of_nat (?n + 1)" using True by simp
  also have "\<dots> \<le> of_nat (2 ^ bits ?n)" using hi by (simp only: of_nat_le_iff)
  finally have 2: "q < 2 powi (expo q + 1)" unfolding e by simp
  from 1 2 show ?thesis ..
next
  case False
  with assms have q: "0 < q" "q < 1" by auto
  let ?r = "1 / q"
  let ?m = "nat (\<lceil>?r\<rceil> - 1)"
  from q have r: "1 < ?r" by simp
  from ceil_pred [OF r] have ml: "of_nat ?m < ?r" and mu: "?r \<le> of_nat ?m + 1" and m: "0 < ?m"
    by auto
  let ?L = "bits ?m"
  from bits_bounds [OF m] have lo: "2 ^ (?L - 1) \<le> ?m" and hi: "?m < 2 ^ ?L" by auto
  from bits_pos [OF m] have Lp: "0 < ?L" .
  have e: "expo q = - int ?L" using False by (simp add: expo_def)
  from hi have "Suc ?m \<le> 2 ^ ?L" by (rule Suc_leI)
  then have "(of_nat (Suc ?m) :: rat) \<le> of_nat (2 ^ ?L)" by (simp only: of_nat_le_iff)
  then have "of_nat ?m + 1 \<le> (2 ^ ?L :: rat)"
    by (simp only: of_nat_Suc of_nat_power of_nat_numeral add.commute)
  with mu have ru: "?r \<le> 2 ^ ?L" by (rule order_trans)
  have 1: "2 powi expo q \<le> q"
  proof -
    have "1 \<le> q * 2 ^ ?L" using ru q by (simp add: pos_divide_le_eq mult.commute)
    then have "1 / 2 ^ ?L \<le> q" by (simp add: pos_divide_le_eq)
    then show ?thesis unfolding e by (simp add: power_int_minus divide_inverse)
  qed
  have "(of_nat (2 ^ (?L - 1)) :: rat) \<le> of_nat ?m" using lo by (simp only: of_nat_le_iff)
  then have "(of_nat (2 ^ (?L - 1)) :: rat) < ?r" using ml by (rule order_le_less_trans)
  then have rl: "2 ^ (?L - 1) < ?r" by (simp only: of_nat_power of_nat_numeral)
  have e1: "expo q + 1 = - int (?L - 1)" unfolding e using Lp by simp
  have 2: "q < 2 powi (expo q + 1)"
  proof -
    have "q * 2 ^ (?L - 1) < 1" using rl q by (simp add: pos_less_divide_eq mult.commute)
    then have "q < 1 / 2 ^ (?L - 1)" by (simp add: pos_less_divide_eq)
    then show ?thesis unfolding e1 by (simp add: power_int_minus divide_inverse)
  qed
  from 1 2 show ?thesis ..
qed


lemma power_int_two_mono: "m \<le> n \<Longrightarrow> (2::rat) powi m \<le> 2 powi n"
  by (rule power_int_increasing) simp_all

lemma power_int_two_less: "(2::rat) powi m < 2 powi n \<Longrightarrow> m < n"
  using power_int_two_mono [of n m] by (cases "m < n") auto

lemma expo_unique:
  assumes "2 powi e \<le> q" and "q < 2 powi (e + 1)"
  shows "expo q = e"
proof -
  have "(0::rat) < 2 powi e" by (simp add: power_int_def)
  with assms(1) have q: "0 < q" by (rule less_le_trans [rotated])
  from expo_bounds [OF q] have b: "2 powi expo q \<le> q" "q < 2 powi (expo q + 1)" by auto
  from b(1) assms(2) have "(2::rat) powi expo q < 2 powi (e + 1)" by simp
  then have 1: "expo q < e + 1" by (rule power_int_two_less)
  from assms(1) b(2) have "(2::rat) powi e < 2 powi (expo q + 1)" by simp
  then have 2: "e < expo q + 1" by (rule power_int_two_less)
  from 1 2 show ?thesis by simp
qed

lemma rne_of_int: "rne (of_int n) = n"
  by (simp add: rne_def)




lemma quantum_at:
  assumes "2 powi e \<le> \<bar>q\<bar>" and "\<bar>q\<bar> < 2 powi (e + 1)"
  shows "quantum q = 2 powi (max e (- 1022) - 52)"
  using expo_unique [OF assms] by (simp add: quantum_def)


lemma rnd_nonzero:
  "q \<noteq> 0 \<Longrightarrow>
   rnd q = (if \<bar>of_int (rne (q / quantum q)) * quantum q\<bar> < huge
            then Finite (of_int (rne (q / quantum q)) * quantum q)
            else if 0 < q then PosInf else NegInf)"
  by (simp add: rnd_def Let_def)

lemma rnd_zero: "rnd 0 = Finite 0"
  by (simp add: rnd_def)

text \<open>Values whose rounding is exact, by their exponent.\<close>

lemma rnd_exact:
  assumes "2 powi e \<le> \<bar>q\<bar>" and "\<bar>q\<bar> < 2 powi (e + 1)" and "- 1022 \<le> e" and "e < 1024"
    and "q / 2 powi (e - 52) = of_int n"
  shows "rnd q = Finite q"
proof -
  have u: "quantum q = 2 powi (e - 52)" using quantum_at [OF assms(1,2)] assms(3) by simp
  have "(0::rat) < 2 powi e" by simp
  with assms(1) have "0 < \<bar>q\<bar>" by (rule less_le_trans [rotated])
  then have nz: "q \<noteq> 0" by simp
  have v: "of_int (rne (q / quantum q)) * quantum q = q"
    unfolding u assms(5) rne_of_int using assms(5) by (simp add: field_simps)
  have "(2::rat) powi (e + 1) \<le> 2 powi 1024" using assms(4) by (intro power_int_two_mono) simp
  with assms(2) have "\<bar>q\<bar> < huge" by (simp add: huge_def)
  with nz v show ?thesis by (simp add: rnd_nonzero)
qed

lemma rnd_half: "rnd (1/2) = Finite (1/2)"
  by (rule rnd_exact [where e = "-1" and n = "2 ^ 52"]) (simp_all add: power_int_minus)

lemma rnd_one: "rnd 1 = Finite 1"
  by (rule rnd_exact [where e = 0 and n = "2 ^ 52"]) (simp_all add: power_int_minus)












section \<open>Numbers: properties\<close>


lemma rnd_two: "rnd 2 = Finite 2"
  by (rule rnd_exact [where e = 1 and n = "2 ^ 52"]) (simp_all add: power_int_minus_divide)





lemma int_to_float_small:
  "int_to_float 0 = Inr (Finite 0)" "int_to_float 1 = Inr (Finite 1)"
  "int_to_float 2 = Inr (Finite 2)"
  by (simp_all add: int_to_float_def rnd_zero rnd_one rnd_two)




lemma confidence_of_float:
  "confidence_of (NFloat x) =
     Inr (NFloat (fmul (fabs (fsub x (Finite (1/2)))) (Finite 2)))"
  by (simp add: confidence_of_def half_def float_op_def int_to_float_small)





lemma half_minus: "py_sub (NInt 1) half = Inr half"
  using rnd_half by (simp add: half_def float_op_def int_to_float_small fsub_def)

lemma half_confidence: "confidence_of half = Inr (NFloat (Finite 0))"
  by (simp add: half_def confidence_of_float fsub_def rnd_zero)










section \<open>The detection aggregator: properties\<close>





lemma scored_half:
  "scored half =
     Inr \<lparr>ensemble_ai_probability = half, ensemble_human_probability = half,
          prediction = ascii ''Human-written'', confidence = NFloat (Finite 0),
          models_used = [detector_model], det_error = None\<rparr>"
  using half_minus half_confidence by (simp add: scored_def py_gt_def half_def)

lemma not_dict_score: "\<not> is_dict p \<Longrightarrow> ai_score_of p = Inr half"
  by (cases p) auto

lemma detect_answering:
  "fst (detect_ai_text demo_config (answering r) t sent) = detect_result r"
  by (simp add: detect_ai_text_def detect_call_def call_hf_api_def demo_config_def answering_def ascii_def)








lemma detect_not_dict:
  "\<not> is_dict p \<Longrightarrow>
   detect_result (JList (p # rest)) =
     \<lparr>ensemble_ai_probability = half, ensemble_human_probability = half,
      prediction = ascii ''Human-written'', confidence = NFloat (Finite 0),
      models_used = [detector_model], det_error = None\<rparr>"
  by (simp add: not_dict_score scored_half)



















text \<open>
  Claim C5, as stated: whenever no detector responds successfully the result is the
  neutral one, with prediction \<open>Detection failed\<close> or \<open>Uncertain\<close> and an empty
  \<open>models_used\<close>.  On the response \<open>[null]\<close>, which carries no score, the prediction is
  \<open>Human-written\<close> and the detector is listed.
\<close>

theorem detection_fallback_counterexample:
  "prediction (fst (detect_ai_text demo_config (answering (JList [JNull])) (ascii ''Hello'') []))
     = ascii ''Human-written''
   \<and> models_used (fst (detect_ai_text demo_config (answering (JList [JNull])) (ascii ''Hello'') []))
       = [detector_model]
   \<and> \<not> neutral (fst (detect_ai_text demo_config (answering (JList [JNull])) (ascii ''Hello'') []))"
  by (simp add: detect_answering detect_not_dict neutral_def ascii_def del: detect_result.simps)




section \<open>The paraphrase and rewrite steps: properties\<close>

lemma generated_text_not_list:
  "\<not> nonempty_list r \<Longrightarrow> generated_text t r = Inr (JStr t, unexpected_format)"
  by (induction t r rule: generated_text.induct) auto

lemma generated_text_not_dict:
  "\<not> is_dict v \<Longrightarrow> generated_text t (JList (v # rest)) = Inl (no_attribute v ''get'')"
  by (cases v) auto

lemma paraphrase_by_call:
  "paraphrase_call cfg net t m sent = (result, sent') \<Longrightarrow>
   paraphrase_text cfg net t m sent =
     (case result of
        Inl e \<Rightarrow> ((JStr t, str_exn e), sent')
      | Inr r \<Rightarrow>
          (case generated_text t r of
             Inr out \<Rightarrow> (out, sent')
           | Inl e \<Rightarrow> ((JStr t, str_exn e), sent')))"
  by (simp add: paraphrase_text_def split: sum.splits)

lemma rewrite_by_call:
  "rewrite_call cfg net t en sent = (result, sent') \<Longrightarrow>
   rewrite_text cfg net t en sent =
     (case result of
        Inl e \<Rightarrow> ((JStr t, str_exn e), sent')
      | Inr r \<Rightarrow>
          (case generated_text t r of
             Inr out \<Rightarrow> (out, sent')
           | Inl e \<Rightarrow> ((JStr t, str_exn e), sent')))"
  by (simp add: rewrite_text_def split: sum.splits)

lemma call_answering:
  "fst (call_hf_api demo_config (answering r) m i p sent) = Inr r"
  by (simp add: call_hf_api_def demo_config_def answering_def ascii_def)

lemma call_failing:
  "fst (call_hf_api demo_config (failing msg) m i p sent) = Inl (Exception msg)"
  by (simp add: call_hf_api_def demo_config_def failing_def ascii_def)

lemma call_without_token:
  "HF_API_TOKEN cfg = [] \<Longrightarrow> call_hf_api cfg net m i p sent = (Inl missing_token, sent)"
  by (simp add: call_hf_api_def)

lemma paraphrase_call_answering:
  "\<exists>sent'. paraphrase_call demo_config (answering r) t m sent = (Inr r, sent')"
  using call_answering [of r _ _ _ sent]
  by (simp add: paraphrase_call_def Let_def) (metis prod.collapse)

lemma rewrite_call_answering:
  "\<exists>sent'. rewrite_call demo_config (answering r) t en sent = (Inr r, sent')"
  using call_answering [of r _ _ _ sent]
  by (simp add: rewrite_call_def Let_def) (metis prod.collapse)

lemma paraphrase_call_failing:
  "\<exists>sent'. paraphrase_call demo_config (failing msg) t m sent = (Inl (Exception msg), sent')"
  using call_failing [of msg _ _ _ sent]
  by (simp add: paraphrase_call_def Let_def) (metis prod.collapse)

lemma rewrite_call_failing:
  "\<exists>sent'. rewrite_call demo_config (failing msg) t en sent = (Inl (Exception msg), sent')"
  using call_failing [of msg _ _ _ sent]
  by (simp add: rewrite_call_def Let_def) (metis prod.collapse)

lemma paraphrase_answering:
  "fst (paraphrase_text demo_config (answering r) t m sent) =
     (case generated_text t r of Inr out \<Rightarrow> out | Inl e \<Rightarrow> (JStr t, str_exn e))"
proof -
  from paraphrase_call_answering obtain sent'
    where "paraphrase_call demo_config (answering r) t m sent = (Inr r, sent')" by blast
  then show ?thesis by (simp add: paraphrase_by_call split: sum.splits)
qed

lemma rewrite_answering:
  "fst (rewrite_text demo_config (answering r) t en sent) =
     (case generated_text t r of Inr out \<Rightarrow> out | Inl e \<Rightarrow> (JStr t, str_exn e))"
proof -
  from rewrite_call_answering obtain sent'
    where "rewrite_call demo_config (answering r) t en sent = (Inr r, sent')" by blast
  then show ?thesis by (simp add: rewrite_by_call split: sum.splits)
qed

lemma paraphrase_failing:
  "fst (paraphrase_text demo_config (failing msg) t m sent) = (JStr t, msg)"
proof -
  from paraphrase_call_failing obtain sent'
    where "paraphrase_call demo_config (failing msg) t m sent = (Inl (Exception msg), sent')" by blast
  then show ?thesis by (simp add: paraphrase_by_call)
qed

lemma rewrite_failing:
  "fst (rewrite_text demo_config (failing msg) t en sent) = (JStr t, msg)"
proof -
  from rewrite_call_failing obtain sent'
    where "rewrite_call demo_config (failing msg) t en sent = (Inl (Exception msg), sent')" by blast
  then show ?thesis by (simp add: rewrite_by_call)
qed

lemma with_snd: "fst p = a \<Longrightarrow> p = (a, snd p)"
  by (cases p) simp

text \<open>
  Claim C7, as stated: when the first element of the response lacks the generated-text
  field, the step returns a failure with the reason "unexpected format".  On the response
  \<open>[{}]\<close> the paraphrase step returns the input text with an empty error string, which is
  its success.
\<close>

theorem missing_field_counterexample:
  "fst (paraphrase_text demo_config (answering (JList [JObj []])) hello JNull []) = (JStr hello, [])
   \<and> snd (fst (paraphrase_text demo_config (answering (JList [JObj []])) hello JNull []))
       \<noteq> unexpected_format"
  by (simp add: paraphrase_answering unexpected_format_def ascii_def lookup_def)

text \<open>
  Claim C7, amended.  For the paraphrase step and for the rewrite step alike: an
  exception of the remote client comes back as the input text with \<open>str(e)\<close>, the reason
  unchanged; a response that is not a non-empty list comes back as the input text with
  "API returned unexpected format"; a first element that is an object comes back as its
  \<open>generated_text\<close>, or the input text when the field is missing, with an empty error
  string; a first element that is not an object comes back as the input text with the
  message of the \<open>AttributeError\<close>.
\<close>

theorem step_outcomes:
  "(paraphrase_call cfg net t m sent = (Inl e, sent')
      \<longrightarrow> paraphrase_text cfg net t m sent = ((JStr t, str_exn e), sent'))
   \<and> (paraphrase_call cfg net t m sent = (Inr r, sent') \<and> \<not> nonempty_list r
      \<longrightarrow> paraphrase_text cfg net t m sent = ((JStr t, unexpected_format), sent'))
   \<and> (paraphrase_call cfg net t m sent = (Inr (JList (JObj kvs # rest)), sent')
      \<longrightarrow> paraphrase_text cfg net t m sent =
            ((lookup kvs ''generated_text'' (JStr t), []), sent'))
   \<and> (paraphrase_call cfg net t m sent = (Inr (JList (x # rest)), sent') \<and> \<not> is_dict x
      \<longrightarrow> paraphrase_text cfg net t m sent = ((JStr t, str_exn (no_attribute x ''get'')), sent'))
   \<and> (rewrite_call cfg net t en sent = (Inl e, sent')
      \<longrightarrow> rewrite_text cfg net t en sent = ((JStr t, str_exn e), sent'))
   \<and> (rewrite_call cfg net t en sent = (Inr r, sent') \<and> \<not> nonempty_list r
      \<longrightarrow> rewrite_text cfg net t en sent = ((JStr t, unexpected_format), sent'))
   \<and> (rewrite_call cfg net t en sent = (Inr (JList (JObj kvs # rest)), sent')
      \<longrightarrow> rewrite_text cfg net t en sent =
            ((lookup kvs ''generated_text'' (JStr t), []), sent'))
   \<and> (rewrite_call cfg net t en sent = (Inr (JList (x # rest)), sent') \<and> \<not> is_dict x
      \<longrightarrow> rewrite_text cfg net t en sent = ((JStr t, str_exn (no_attribute x ''get'')), sent'))"
  by (auto simp: paraphrase_by_call rewrite_by_call generated_text_not_list generated_text_not_dict)

theorem step_outcomes_witness:
  "fst (paraphrase_text demo_config (failing server_error) hello JNull []) = (JStr hello, server_error)
   \<and> fst (paraphrase_text demo_config (answering (JList [])) hello JNull [])
       = (JStr hello, unexpected_format)
   \<and> fst (paraphrase_text demo_config (answering (JList [JObj []])) hello JNull []) = (JStr hello, [])
   \<and> fst (paraphrase_text demo_config (answering (JList [JNull])) hello JNull [])
       = (JStr hello, str_exn (no_attribute JNull ''get''))
   \<and> fst (rewrite_text demo_config (failing server_error) hello (JBool True) []) = (JStr hello, server_error)
   \<and> fst (rewrite_text demo_config (answering (JObj [])) hello (JBool True) [])
       = (JStr hello, unexpected_format)
   \<and> fst (rewrite_text demo_config (answering (JList [JObj []])) hello (JBool True) []) = (JStr hello, [])
   \<and> fst (rewrite_text demo_config (answering (JList [JNull])) hello (JBool True) [])
       = (JStr hello, str_exn (no_attribute JNull ''get''))"
proof -
  let ?pc = "\<lambda>net. paraphrase_call demo_config net hello JNull []"
  let ?rc = "\<lambda>net. rewrite_call demo_config net hello (JBool True) []"
  have p1: "?pc (failing server_error) = (Inl (Exception server_error), snd (?pc (failing server_error)))"
    by (rule with_snd) (simp add: paraphrase_call_def Let_def call_failing)
  have p2: "?pc (answering (JList [])) = (Inr (JList []), snd (?pc (answering (JList []))))"
    by (rule with_snd) (simp add: paraphrase_call_def Let_def call_answering)
  have p3: "?pc (answering (JList [JObj []])) = (Inr (JList (JObj [] # [])), snd (?pc (answering (JList [JObj []]))))"
    by (rule with_snd) (simp add: paraphrase_call_def Let_def call_answering)
  have p4: "?pc (answering (JList [JNull])) = (Inr (JList (JNull # [])), snd (?pc (answering (JList [JNull]))))"
    by (rule with_snd) (simp add: paraphrase_call_def Let_def call_answering)
  have r1: "?rc (failing server_error) = (Inl (Exception server_error), snd (?rc (failing server_error)))"
    by (rule with_snd) (simp add: rewrite_call_def Let_def call_failing)
  have r2: "?rc (answering (JObj [])) = (Inr (JObj []), snd (?rc (answering (JObj []))))"
    by (rule with_snd) (simp add: rewrite_call_def Let_def call_answering)
  have r3: "?rc (answering (JList [JObj []])) = (Inr (JList (JObj [] # [])), snd (?rc (answering (JList [JObj []]))))"
    by (rule with_snd) (simp add: rewrite_call_def Let_def call_answering)
  have r4: "?rc (answering (JList [JNull])) = (Inr (JList (JNull # [])), snd (?rc (answering (JList [JNull]))))"
    by (rule with_snd) (simp add: rewrite_call_def Let_def call_answering)
  show ?thesis
    using
      step_outcomes [of demo_config "failing server_error" hello JNull "[]" "Exception server_error"
        "snd (?pc (failing server_error))" JNull "[]" "[]" JNull "JBool True"]
      step_outcomes [of demo_config "answering (JList [])" hello JNull "[]" "Exception []"
        "snd (?pc (answering (JList [])))" "JList []" "[]" "[]" JNull "JBool True"]
      step_outcomes [of demo_config "answering (JList [JObj []])" hello JNull "[]" "Exception []"
        "snd (?pc (answering (JList [JObj []])))" JNull "[]" "[]" JNull "JBool True"]
      step_outcomes [of demo_config "answering (JList [JNull])" hello JNull "[]" "Exception []"
        "snd (?pc (answering (JList [JNull])))" JNull "[]" "[]" JNull "JBool True"]
      step_outcomes [of demo_config "failing server_error" hello JNull "[]" "Exception server_error"
        "snd (?rc (failing server_error))" JNull "[]" "[]" JNull "JBool True"]
      step_outcomes [of demo_config "answering (JObj [])" hello JNull "[]" "Exception []"
        "snd (?rc (answering (JObj [])))" "JObj []" "[]" "[]" JNull "JBool True"]
      step_outcomes [of demo_config "answering (JList [JObj []])" hello JNull "[]" "Exception []"
        "snd (?rc (answering (JList [JObj []])))" JNull "[]" "[]" JNull "JBool True"]
      step_outcomes [of demo_config "answering (JList [JNull])" hello JNull "[]" "Exception []"
        "snd (?rc (answering (JList [JNull])))" JNull "[]" "[]" JNull "JBool True"]
      p1 p2 p3 p4 r1 r2 r3 r4
    by (simp add: lookup_def)
qed

section \<open>The humanization pipeline: properties\<close>

lemma map_of_key: "map_of kvs k = Some v \<Longrightarrow> k \<in> fst ` set kvs"
  by (induction kvs) (auto split: if_splits)

lemma humanize_route_valid:
  assumes "IMPORTS_AVAILABLE M"
    and "map_of kvs (ascii ''text'') = Some (JStr t)"
    and "10 \<le> length (strip t)" and "length (strip t) \<le> 50000"
  shows "humanize_route M (JObj kvs) s =
     (case humanize_text M (strip t) (lookup kvs ''paraphrasing'' (JBool True))
             (lookup kvs ''enhanced'' (JBool True)) (lookup kvs ''model'' JNull) s of
        ((h, st), s1) \<Rightarrow>
          (case or_original h (strip t) of
             Inl e \<Rightarrow> (Inl e, s1)
           | Inr h' \<Rightarrow> (Inr (reply 200 (Dumps_humanized h' st)), s1)))"
proof -
  from assms(2) have "py_in (ascii ''text'') (JObj kvs) = Inr True"
    by (simp add: map_of_key)
  moreover from assms(2) have "py_get (JObj kvs) ''text'' (JStr []) = Inr (JStr t)"
    by (simp add: lookup_def)
  moreover from assms(3) have "strip t \<noteq> []" by auto
  ultimately show ?thesis
    using assms(1,3,4) by (simp add: humanize_route_def)
qed

lemma route_humanize:
  "route M (ascii ''/humanize'') (ascii ''POST'') b s = humanize_route M b s"
  by (simp add: route_def ascii_def)

lemma handler_humanize:
  assumes "IMPORTS_AVAILABLE M" and "humanize_request M ev kvs t"
  shows "handler M ev s =
     (case humanize_text M (strip t) (lookup kvs ''paraphrasing'' (JBool True))
             (lookup kvs ''enhanced'' (JBool True)) (lookup kvs ''model'' JNull) s of
        ((h, st), s1) \<Rightarrow>
          (case or_original h (strip t) of
             Inl e \<Rightarrow> (internal_error_reply, s1)
           | Inr h' \<Rightarrow> (reply 200 (Dumps_humanized h' st), s1)))"
proof -
  from assms(2) have m: "ev_httpMethod ev = Some (ascii ''POST'')"
    and p: "rstrip_char 47 (case ev_path ev of Some p \<Rightarrow> p | None \<Rightarrow> []) = ascii ''/humanize''"
    and b: "parse_body M (ev_body ev) = JObj kvs"
    and t: "map_of kvs (ascii ''text'') = Some (JStr t)"
    and l: "10 \<le> length (strip t)" "length (strip t) \<le> 50000"
    by (simp_all add: humanize_request_def)
  have o: "ascii ''POST'' \<noteq> ascii ''OPTIONS''" by (simp add: ascii_def)
  have "handler M ev s =
          (case humanize_route M (JObj kvs) s of
             (Inr r, s') \<Rightarrow> (r, s')
           | (Inl e, s') \<Rightarrow> (internal_error_reply, s'))"
    using m p b o by (simp add: handler_def route_humanize)
  then show ?thesis
    using assms(1) t l
    by (simp add: humanize_route_valid split: prod.splits sum.splits)
qed

lemma or_original_stripped:
  "strip t \<noteq> [] \<Longrightarrow> or_original (JStr (strip t)) (strip t) = Inr (JStr (strip t))"
  by (simp add: or_original_def strip_idem)

lemma humanize_text_raised:
  "IMPORTS_AVAILABLE M \<Longrightarrow> pipeline M t up ue pm s = (Inl (e, st), s') \<Longrightarrow>
   humanize_text M t up ue pm s =
     ((JStr t, Statistics (st\<lparr>st_error := Some (str_exn e),
                               processing_steps := processing_steps st @ [ascii ''error'']\<rparr>)), s')"
  by (simp add: humanize_text_def)

lemma clean_dyn_str: "clean_final_text_dyn (JStr t) = Inr (JStr (clean_final_text t))"
  by (simp add: clean_final_text_dyn_def clean_final_text_def)

lemma cleaning_step_str:
  "cleaning_step (JStr f) st =
     Inr (JStr (clean_final_text f),
          (add_step ''text_cleaning'' st)
            \<lparr>final_length := Some (length (clean_final_text f)),
             length_change := Some (int (length (clean_final_text f)) - int (original_length st))\<rparr>)"
  by (simp add: cleaning_step_def clean_dyn_str add_step_def)

lemma paraphrase_step_off:
  "\<not> truthy up \<Longrightarrow> paraphrase_step M up pm t st s = (Inr (t, st), s)"
  by (simp add: paraphrase_step_def)

lemma paraphrase_step_failed:
  "truthy up \<Longrightarrow> imported_paraphrase_text M t pm s = (Inr (p, perr), s1) \<Longrightarrow>
   accepted perr p = Inr None \<Longrightarrow>
   paraphrase_step M up pm t st s = (Inr (t, add_step ''paraphrasing_failed'' st), s1)"
  by (simp add: paraphrase_step_def)


lemma rewrite_step_failed:
  "imported_rewrite_text M cur ue s = (Inr (r, rerr), s1) \<Longrightarrow> rerr \<noteq> [] \<Longrightarrow>
   rewrite_step M ue cur st s = (Inr (JStr cur, add_step ''rewriting_failed'' st), s1)"
  by (simp add: rewrite_step_def)

lemma rewrite_step_done:
  "imported_rewrite_text M cur ue s = (Inr (r, []), s1) \<Longrightarrow>
   rewrite_step M ue cur st s = (Inr (r, add_step ''rewriting'' st), s1)"
  by (simp add: rewrite_step_def)

lemma humanize_text_returned:
  "IMPORTS_AVAILABLE M \<Longrightarrow> pipeline M t up ue pm s = (Inr (f, st), s') \<Longrightarrow>
   humanize_text M t up ue pm s = ((f, Statistics st), s')"
  by (simp add: humanize_text_def)

lemma paraphrase_failed_run:
  assumes "IMPORTS_AVAILABLE M" and "truthy up"
    and "imported_paraphrase_text M t pm s = (Inr (p, perr), s1)"
    and "accepted perr p = Inr None"
    and "imported_rewrite_text M t ue s1 = (Inr (JStr r, rerr), s2)"
  shows "humanize_text M t up ue pm s =
     (if rerr \<noteq> [] then
        ((JStr (clean_final_text t),
          Statistics (finished (initial_stats t ue)
            [''paraphrasing_failed'', ''rewriting_failed'', ''text_cleaning'']
            (clean_final_text t))), s2)
      else
        ((JStr (clean_final_text r),
          Statistics (finished (initial_stats t ue)
            [''paraphrasing_failed'', ''rewriting'', ''text_cleaning'']
            (clean_final_text r))), s2))"
proof -
  have "pipeline M t up ue pm s =
     (if rerr \<noteq> [] then
        (Inr (JStr (clean_final_text t),
          finished (initial_stats t ue)
            [''paraphrasing_failed'', ''rewriting_failed'', ''text_cleaning'']
            (clean_final_text t)), s2)
      else
        (Inr (JStr (clean_final_text r),
          finished (initial_stats t ue)
            [''paraphrasing_failed'', ''rewriting'', ''text_cleaning'']
            (clean_final_text r)), s2))"
    using assms(5)
    by (simp add: pipeline_def paraphrase_step_failed [OF assms(2,3,4)] rewrite_step_def
          cleaning_step_str add_step_def finished_def initial_stats_def)
  with assms(1) show ?thesis by (simp add: humanize_text_returned)
qed


lemma rewrite_failed_alone:
  assumes "IMPORTS_AVAILABLE M" and "\<not> truthy up"
    and "imported_rewrite_text M t ue s = (Inr (r, rerr), s1)"
    and "rerr \<noteq> []"
  shows "humanize_text M t up ue pm s =
     ((JStr (clean_final_text t),
       Statistics (finished (initial_stats t ue) [''rewriting_failed'', ''text_cleaning'']
         (clean_final_text t))), s1)"
proof -
  have "pipeline M t up ue pm s =
     (Inr (JStr (clean_final_text t),
       finished (initial_stats t ue) [''rewriting_failed'', ''text_cleaning'']
         (clean_final_text t)), s1)"
    by (simp add: pipeline_def paraphrase_step_off [OF assms(2)]
          rewrite_step_failed [OF assms(3,4)]
          cleaning_step_str add_step_def finished_def initial_stats_def)
  with assms(1) show ?thesis by (simp add: humanize_text_returned)
qed


subsection \<open>The example modules\<close>


lemma demo_paraphrase:
  "imported_paraphrase_text (demo_modules a cfg net) t m sent =
     (Inr (fst (paraphrase_text cfg net t m sent)), snd (paraphrase_text cfg net t m sent))"
  by (simp add: demo_modules_def with_api_external_def split: prod.splits)

lemma demo_rewrite:
  "imported_rewrite_text (demo_modules a cfg net) t en sent =
     (Inr (fst (rewrite_text cfg net t en sent)), snd (rewrite_text cfg net t en sent))"
  by (simp add: demo_modules_def with_api_external_def split: prod.splits)

lemma demo_available: "IMPORTS_AVAILABLE (demo_modules a cfg net) = a"
  by (simp add: demo_modules_def with_api_external_def)

lemma demo_current_model:
  "get_current_model (demo_modules a cfg net) sent = (Inr default_paraphraser, sent)"
  by (simp add: demo_modules_def with_api_external_def)


lemma call_demo:
  "call_hf_api demo_config net m i p sent =
     (net sent \<lparr>req_model = m, req_token = ascii ''hf_demo'', req_inputs = i,
                 req_parameters = (case p of None \<Rightarrow> [] | Some q \<Rightarrow> q)\<rparr>,
      sent @ [\<lparr>req_model = m, req_token = ascii ''hf_demo'', req_inputs = i,
                req_parameters = (case p of None \<Rightarrow> [] | Some q \<Rightarrow> q)\<rparr>])"
  by (simp add: call_hf_api_def demo_config_def ascii_def Let_def)

lemma paraphrase_text_fst:
  "fst (paraphrase_text cfg net t m sent) =
     (case fst (paraphrase_call cfg net t m sent) of
        Inl e \<Rightarrow> (JStr t, str_exn e)
      | Inr r \<Rightarrow> (case generated_text t r of Inr out \<Rightarrow> out | Inl e \<Rightarrow> (JStr t, str_exn e)))"
  by (simp add: paraphrase_text_def split: prod.splits sum.splits)

lemma paraphrase_text_snd:
  "snd (paraphrase_text cfg net t m sent) = snd (paraphrase_call cfg net t m sent)"
  by (simp add: paraphrase_text_def split: prod.splits sum.splits)

lemma rewrite_text_fst:
  "fst (rewrite_text cfg net t en sent) =
     (case fst (rewrite_call cfg net t en sent) of
        Inl e \<Rightarrow> (JStr t, str_exn e)
      | Inr r \<Rightarrow> (case generated_text t r of Inr out \<Rightarrow> out | Inl e \<Rightarrow> (JStr t, str_exn e)))"
  by (simp add: rewrite_text_def split: prod.splits sum.splits)

lemma rewrite_text_snd:
  "snd (rewrite_text cfg net t en sent) = snd (rewrite_call cfg net t en sent)"
  by (simp add: rewrite_text_def split: prod.splits sum.splits)

lemmas demo_simps = demo_paraphrase demo_rewrite demo_available demo_current_model
  paraphrase_text_fst paraphrase_text_snd rewrite_text_fst rewrite_text_snd
  paraphrase_call_def rewrite_call_def call_demo
  failing_def failing_once_def answering_once_def answering_def generated_def
  accepted_def lookup_def Let_def





lemma demo_text_stripped:
  "strip demo_text = demo_text \<and> length demo_text = 29 \<and> demo_text \<noteq> []"
  by (simp add: demo_text_def ascii_def strip_def py_isspace_def)

lemma demo_request:
  "json_loads M = demo_loads \<Longrightarrow>
   humanize_request M (post_humanize demo_body) [(ascii ''text'', JStr demo_text)] demo_text"
  by (simp add: humanize_request_def post_humanize_def demo_body_def parse_body_def
        rstrip_char_def demo_text_stripped) (simp add: ascii_def)

lemma demo_json_loads: "json_loads (demo_modules a cfg net) = demo_loads"
  by (simp add: demo_modules_def with_api_external_def)

lemma demo_options:
  "lookup [(ascii ''text'', v)] ''paraphrasing'' d = d"
  "lookup [(ascii ''text'', v)] ''enhanced'' d = d"
  "lookup [(ascii ''text'', v)] ''model'' d = d"
  by (simp_all add: lookup_def ascii_def)

subsection \<open>Claim C1\<close>

text \<open>
  Claim C1.  \<open>humanize_text\<close> returns in every case: the \<open>try\<close> block is the only place
  where an exception can be raised and its handler catches all of them.  When the block
  raises \<open>e\<close> with the statistics \<open>st\<close> accumulated so far, \<open>humanize_text\<close> returns the
  original text and \<open>st\<close> with \<open>error\<close> set to \<open>str(e)\<close> and \<open>"error"\<close> appended to the steps;
  and the handler, for a valid request to \<open>POST /humanize\<close>, answers 200 with that text and
  those statistics.
\<close>

theorem pipeline_failure:
  "IMPORTS_AVAILABLE M \<and> pipeline M t up ue pm s = (Inl (e, st), s')
   \<longrightarrow> humanize_text M t up ue pm s =
         ((JStr t, Statistics (st\<lparr>st_error := Some (str_exn e),
                                   processing_steps := processing_steps st @ [ascii ''error'']\<rparr>)), s')
       \<and> (humanize_request M ev kvs body_text \<and> t = strip body_text
            \<and> up = lookup kvs ''paraphrasing'' (JBool True)
            \<and> ue = lookup kvs ''enhanced'' (JBool True)
            \<and> pm = lookup kvs ''model'' JNull
          \<longrightarrow> handler M ev s =
                (reply 200
                   (Dumps_humanized (JStr t)
                      (Statistics (st\<lparr>st_error := Some (str_exn e),
                                       processing_steps := processing_steps st @ [ascii ''error'']\<rparr>))),
                 s'))"
proof (intro impI conjI; elim conjE)
  assume a: "IMPORTS_AVAILABLE M" "pipeline M t up ue pm s = (Inl (e, st), s')"
  then show h: "humanize_text M t up ue pm s =
         ((JStr t, Statistics (st\<lparr>st_error := Some (str_exn e),
                                   processing_steps := processing_steps st @ [ascii ''error'']\<rparr>)), s')"
    by (rule humanize_text_raised)
  assume r: "humanize_request M ev kvs body_text" and t: "t = strip body_text"
    and o: "up = lookup kvs ''paraphrasing'' (JBool True)"
      "ue = lookup kvs ''enhanced'' (JBool True)" "pm = lookup kvs ''model'' JNull"
  from r have "strip body_text \<noteq> []" by (auto simp: humanize_request_def)
  then have "or_original (JStr (strip body_text)) (strip body_text) = Inr (JStr (strip body_text))"
    by (rule or_original_stripped)
  with handler_humanize [OF a(1) r, of s] h t o
  show "handler M ev s =
                (reply 200
                   (Dumps_humanized (JStr t)
                      (Statistics (st\<lparr>st_error := Some (str_exn e),
                                       processing_steps := processing_steps st @ [ascii ''error'']\<rparr>))),
                 s')"
    by simp
qed


text \<open>
  A run of C1: the paraphraser answers with the number 5 as generated text, on which
  \<open>.strip()\<close> raises.
\<close>

theorem pipeline_failure_witness:
  "fst (handler (demo_modules True demo_config (answering (generated (JInt 5))))
          (post_humanize demo_body) [])
     = reply 200
         (Dumps_humanized (JStr demo_text)
            (Statistics ((initial_stats demo_text (JBool True))
               \<lparr>st_error := Some (str_exn (no_attribute (JInt 5) ''strip'')),
                processing_steps := [ascii ''error'']\<rparr>)))
   \<and> fst (humanize_text (demo_modules True demo_config (answering (generated (JInt 5))))
          demo_text (JBool True) (JBool True) JNull [])
     = (JStr demo_text,
        Statistics ((initial_stats demo_text (JBool True))
               \<lparr>st_error := Some (str_exn (no_attribute (JInt 5) ''strip'')),
                processing_steps := [ascii ''error'']\<rparr>))"
proof -
  let ?M = "demo_modules True demo_config (answering (generated (JInt 5)))"
  let ?s = "snd (pipeline ?M demo_text (JBool True) (JBool True) JNull [])"
  have p: "pipeline ?M demo_text (JBool True) (JBool True) JNull [] =
             (Inl (no_attribute (JInt 5) ''strip'', initial_stats demo_text (JBool True)), ?s)"
    by (rule with_snd) (simp add: pipeline_def paraphrase_step_def demo_simps)
  have r: "humanize_request ?M (post_humanize demo_body) [(ascii ''text'', JStr demo_text)] demo_text"
    by (rule demo_request) (rule demo_json_loads)
  show ?thesis
    using pipeline_failure [where M = ?M and t = demo_text and up = "JBool True"
        and ue = "JBool True" and pm = JNull and s = "[]"
        and e = "no_attribute (JInt 5) ''strip''" and st = "initial_stats demo_text (JBool True)"
        and s' = ?s and ev = "post_humanize demo_body"
        and kvs = "[(ascii ''text'', JStr demo_text)]" and body_text = demo_text]
      p r
    by (simp add: demo_available demo_options demo_text_stripped initial_stats_def)
qed

subsection \<open>Claim C2\<close>




subsection \<open>Claim C6\<close>

lemma parse_body_with_api:
  "parse_body (with_api_external cfg net M) b = parse_body M b"
  by (cases b) (simp_all add: parse_body_def with_api_external_def)

lemma request_with_api:
  "humanize_request (with_api_external cfg net M) ev kvs t = humanize_request M ev kvs t"
  by (simp add: humanize_request_def parse_body_with_api)

lemma missing_token_message: "str_exn missing_token \<noteq> []"
  by (simp add: missing_token_def ascii_def)

lemma paraphrase_no_token:
  "HF_API_TOKEN cfg = [] \<Longrightarrow>
   paraphrase_text cfg net t m sent = ((JStr t, str_exn missing_token), sent)"
  by (simp add: paraphrase_text_def paraphrase_call_def call_without_token Let_def)

lemma rewrite_no_token:
  "HF_API_TOKEN cfg = [] \<Longrightarrow>
   rewrite_text cfg net t en sent = ((JStr t, str_exn missing_token), sent)"
  by (simp add: rewrite_text_def rewrite_call_def call_without_token Let_def)

lemma accepted_error: "err \<noteq> [] \<Longrightarrow> accepted err p = Inr None"
  by (simp add: accepted_def)

lemma humanize_no_token:
  assumes "HF_API_TOKEN cfg = []" and "IMPORTS_AVAILABLE M"
  shows "humanize_text (with_api_external cfg net M) t up ue pm sent =
     ((JStr (clean_final_text t),
       Statistics (finished (initial_stats t ue)
         ((if truthy up then [''paraphrasing_failed''] else [])
          @ [''rewriting_failed'', ''text_cleaning''])
         (clean_final_text t))), sent)"
proof -
  let ?M = "with_api_external cfg net M"
  have a: "IMPORTS_AVAILABLE ?M" using assms(2) by (simp add: with_api_external_def)
  have p: "imported_paraphrase_text ?M t pm sent = (Inr (JStr t, str_exn missing_token), sent)"
    by (simp add: with_api_external_def paraphrase_no_token [OF assms(1)])
  have r: "imported_rewrite_text ?M t ue sent = (Inr (JStr t, str_exn missing_token), sent)"
    by (simp add: with_api_external_def rewrite_no_token [OF assms(1)])
  show ?thesis
  proof (cases "truthy up")
    case True
    from paraphrase_failed_run [OF a True p accepted_error [OF missing_token_message] r]
    show ?thesis using True by (simp add: missing_token_message)
  next
    case False
    from rewrite_failed_alone [OF a False r missing_token_message]
    show ?thesis using False by simp
  qed
qed

lemma or_original_str:
  "or_original (JStr c) t = Inr (JStr (if strip c = [] then t else c))"
  by (auto simp: or_original_def strip_def)

lemma handler_no_token:
  assumes "HF_API_TOKEN cfg = []" and "IMPORTS_AVAILABLE M"
    and "humanize_request M ev kvs body_text"
  shows "handler (with_api_external cfg net M) ev sent =
     (reply 200
        (Dumps_humanized
           (JStr (if strip (clean_final_text (strip body_text)) = [] then strip body_text
                  else clean_final_text (strip body_text)))
           (Statistics (finished
              (initial_stats (strip body_text) (lookup kvs ''enhanced'' (JBool True)))
              ((if truthy (lookup kvs ''paraphrasing'' (JBool True))
                then [''paraphrasing_failed''] else [])
               @ [''rewriting_failed'', ''text_cleaning''])
              (clean_final_text (strip body_text))))),
      sent)"
proof -
  let ?M = "with_api_external cfg net M"
  have a: "IMPORTS_AVAILABLE ?M" using assms(2) by (simp add: with_api_external_def)
  have r: "humanize_request ?M ev kvs body_text" using assms(3) by (simp add: request_with_api)
  show ?thesis
    by (simp add: handler_humanize [OF a r] humanize_no_token [OF assms(1,2)] or_original_str)
qed

lemma demo_modules_eq:
  "demo_modules a cfg net = with_api_external cfg net (demo_modules a cfg net)"
  by (simp add: demo_modules_def with_api_external_def)

lemma demo_text_clean: "clean_final_text demo_text = demo_text"
  by (simp add: clean_final_text_def demo_text_def ascii_def replace_char_def em_dash_def)

lemma no_token_empty: "HF_API_TOKEN no_token = []"
  by (simp add: no_token_def)

text \<open>
  Claim C6, as stated: without the credential the request is answered with a 500-class
  error instead of the soft-failure path.  With the steps of \<open>api_external.py\<close> and no
  token, a valid request is answered 200, with both steps recorded as failed; no request
  is sent.
\<close>

theorem missing_credential_counterexample:
  "handler (demo_modules True no_token (answering (generated (JStr hello))))
      (post_humanize demo_body) []
     = (reply 200
          (Dumps_humanized (JStr demo_text)
             (Statistics (finished (initial_stats demo_text (JBool True))
                [''paraphrasing_failed'', ''rewriting_failed'', ''text_cleaning''] demo_text))),
        [])
   \<and> statusCode (fst (handler (demo_modules True no_token (answering (generated (JStr hello))))
        (post_humanize demo_body) [])) = 200"
proof -
  let ?M = "demo_modules True no_token (answering (generated (JStr hello)))"
  have r: "humanize_request ?M (post_humanize demo_body) [(ascii ''text'', JStr demo_text)] demo_text"
    by (rule demo_request) (rule demo_json_loads)
  have a: "IMPORTS_AVAILABLE ?M" by (simp add: demo_available)
  from handler_no_token [OF no_token_empty a r, of "answering (generated (JStr hello))" "[]"]
  show ?thesis
    by (simp add: demo_modules_eq [symmetric] demo_options demo_text_stripped demo_text_clean
          reply_def)
qed

text \<open>
  Claim C6, amended.  Without the credential \<open>call_hf_api\<close> raises before any request is
  sent (the log is unchanged); the paraphrase and the rewrite step catch the exception and
  return the input text with its message; and the handler, with these steps, answers a
  valid request to \<open>POST /humanize\<close> with 200, the cleaned original text and the steps
  \<open>"paraphrasing_failed"\<close> (when paraphrasing is on), \<open>"rewriting_failed"\<close>,
  \<open>"text_cleaning"\<close>.
\<close>

theorem missing_credential:
  "HF_API_TOKEN cfg = []
   \<longrightarrow> call_hf_api cfg net m i p sent = (Inl missing_token, sent)
       \<and> paraphrase_text cfg net t pm sent = ((JStr t, str_exn missing_token), sent)
       \<and> rewrite_text cfg net t ue sent = ((JStr t, str_exn missing_token), sent)
       \<and> (IMPORTS_AVAILABLE M \<and> humanize_request M ev kvs body_text
          \<longrightarrow> handler (with_api_external cfg net M) ev sent =
                (reply 200
                   (Dumps_humanized
                      (JStr (if strip (clean_final_text (strip body_text)) = []
                             then strip body_text
                             else clean_final_text (strip body_text)))
                      (Statistics (finished
                         (initial_stats (strip body_text) (lookup kvs ''enhanced'' (JBool True)))
                         ((if truthy (lookup kvs ''paraphrasing'' (JBool True))
                           then [''paraphrasing_failed''] else [])
                          @ [''rewriting_failed'', ''text_cleaning''])
                         (clean_final_text (strip body_text))))),
                 sent))"
  using call_without_token [of cfg net m i p sent] paraphrase_no_token [of cfg net t pm sent]
    rewrite_no_token [of cfg net t ue sent] handler_no_token [of cfg M ev kvs body_text net sent]
  by blast

text \<open>The run of C6 without a token.\<close>

theorem missing_credential_witness:
  "call_hf_api no_token (answering (generated (JStr hello))) default_paraphraser hello None []
     = (Inl missing_token, [])
   \<and> paraphrase_text no_token (answering (generated (JStr hello))) demo_text JNull []
     = ((JStr demo_text, ascii ''HF_API_TOKEN environment variable not set''), [])
   \<and> rewrite_text no_token (answering (generated (JStr hello))) demo_text (JBool True) []
     = ((JStr demo_text, ascii ''HF_API_TOKEN environment variable not set''), [])
   \<and> handler (demo_modules True no_token (answering (generated (JStr hello))))
      (post_humanize demo_body) []
     = (reply 200
          (Dumps_humanized (JStr demo_text)
             (Statistics (finished (initial_stats demo_text (JBool True))
                [''paraphrasing_failed'', ''rewriting_failed'', ''text_cleaning''] demo_text))),
        [])"
proof -
  let ?M = "demo_modules True no_token (answering (generated (JStr hello)))"
  have r: "humanize_request ?M (post_humanize demo_body) [(ascii ''text'', JStr demo_text)] demo_text"
    by (rule demo_request) (rule demo_json_loads)
  have a: "IMPORTS_AVAILABLE ?M" by (simp add: demo_available)
  show ?thesis
    using missing_credential [where cfg = no_token and net = "answering (generated (JStr hello))"
        and m = default_paraphraser and i = hello and p = None and sent = "[]"
        and t = demo_text and pm = JNull and ue = "JBool True" and M = ?M
        and ev = "post_humanize demo_body" and kvs = "[(ascii ''text'', JStr demo_text)]"
        and body_text = demo_text] r a
    by (simp add: no_token_empty demo_modules_eq [symmetric] demo_options demo_text_stripped
          demo_text_clean missing_token_def)
qed


section \<open>The request handler: properties\<close>

lemma parse_body_no_json: "no_json_body M b \<Longrightarrow> parse_body M b = JObj []"
  by (cases b) (auto simp: no_json_body_def parse_body_def split: sum.splits)

lemma humanize_route_empty:
  "humanize_route M (JObj []) s =
     (Inr (if IMPORTS_AVAILABLE M then error_reply 400 ''Text field is required''
           else unavailable_reply), s)"
  by (simp add: humanize_route_def)

lemma handler_no_json:
  assumes "ev_httpMethod ev = Some (ascii ''POST'')"
    and "rstrip_char 47 (case ev_path ev of Some p \<Rightarrow> p | None \<Rightarrow> []) = ascii ''/humanize''"
    and "no_json_body M (ev_body ev)"
  shows "handler M ev s =
     (if IMPORTS_AVAILABLE M then error_reply 400 ''Text field is required''
      else unavailable_reply, s)"
proof -
  have o: "ascii ''POST'' \<noteq> ascii ''OPTIONS''" by (simp add: ascii_def)
  from assms o show ?thesis
    by (simp add: handler_def route_humanize parse_body_no_json humanize_route_empty)
qed

lemma not_json_rejected: "no_json_body (demo_modules a cfg net) (JStr not_json)"
  by (simp add: no_json_body_def demo_json_loads demo_loads_def not_json_def ascii_def)

lemma no_body_rejected: "no_json_body M JNull"
  by (simp add: no_json_body_def)

lemma post_humanize_route:
  "ev_httpMethod (post_humanize b) = Some (ascii ''POST'')
   \<and> rstrip_char 47 (case ev_path (post_humanize b) of Some p \<Rightarrow> p | None \<Rightarrow> [])
       = ascii ''/humanize''
   \<and> ev_body (post_humanize b) = b"
  by (simp add: post_humanize_def rstrip_char_def) (simp add: ascii_def)

text \<open>
  Claim C10, as stated: every \<open>POST /humanize\<close> whose body is not valid JSON is answered
  with 400.  When the import of the modules has failed, the guard of line 257 answers 500
  before the body is looked at.
\<close>

theorem invalid_body_counterexample:
  "no_json_body (demo_modules False demo_config (answering JNull)) (JStr not_json)
   \<and> fst (handler (demo_modules False demo_config (answering JNull))
            (post_humanize (JStr not_json)) []) = unavailable_reply
   \<and> statusCode (fst (handler (demo_modules False demo_config (answering JNull))
            (post_humanize (JStr not_json)) [])) = 500"
  using handler_no_json [of "post_humanize (JStr not_json)"
          "demo_modules False demo_config (answering JNull)" "[]"]
  by (simp add: post_humanize_route not_json_rejected demo_available unavailable_reply_def reply_def)

text \<open>
  Claim C10, amended.  For a \<open>POST /humanize\<close> whose body is absent or not valid JSON, the
  body is taken to be the empty dictionary, and the answer is 400 with "Text field is
  required" when the modules are available, and 500 with "Required modules not available"
  when they are not; never the 500 of an internal error.
\<close>

theorem invalid_body:
  "ev_httpMethod ev = Some (ascii ''POST'')
   \<and> rstrip_char 47 (case ev_path ev of Some p \<Rightarrow> p | None \<Rightarrow> []) = ascii ''/humanize''
   \<and> no_json_body M (ev_body ev)
   \<longrightarrow> parse_body M (ev_body ev) = JObj []
       \<and> handler M ev s =
           (if IMPORTS_AVAILABLE M then error_reply 400 ''Text field is required''
            else unavailable_reply, s)"
  using parse_body_no_json [of M "ev_body ev"] handler_no_json [of ev M s] by blast

text \<open>Three requests of C10: a body that is not JSON, and no body, with and without the modules.\<close>

theorem invalid_body_witness:
  "handler (demo_modules True demo_config (answering JNull)) (post_humanize (JStr not_json)) []
     = (error_reply 400 ''Text field is required'', [])
   \<and> handler (demo_modules True demo_config (answering JNull)) (post_humanize JNull) []
     = (error_reply 400 ''Text field is required'', [])
   \<and> handler (demo_modules False demo_config (answering JNull)) (post_humanize JNull) []
     = (unavailable_reply, [])"
  using invalid_body [of "post_humanize (JStr not_json)"
          "demo_modules True demo_config (answering JNull)" "[]"]
    invalid_body [of "post_humanize JNull" "demo_modules True demo_config (answering JNull)" "[]"]
    invalid_body [of "post_humanize JNull" "demo_modules False demo_config (answering JNull)" "[]"]
  by (simp add: post_humanize_route not_json_rejected no_body_rejected demo_available)


end
